theory Spec2Isabelle
  imports Main
begin

section \<open>The mail listener and its file queue (listener.py)\<close>

text \<open>
  The development embeds \<^verbatim>\<open>src/python/listener_20251031/listener.py\<close>: the subject
  filter, the payload writer, the event handler \<^verbatim>\<open>InboxEvents.OnItemAdd\<close>, the
  dispatcher hand-off and the worker wrapper with its archive step.

  Python strings are modelled as HOL strings, that is on the code points below 256.
  Everything the program does to its surroundings is explicit: a file system, the
  console, the module-global executor. Every exception the program can meet is a value
  of type \<open>exn\<close>; all of them derive from Python's \<^verbatim>\<open>Exception\<close>, so an
  \<^verbatim>\<open>except Exception\<close> clause catches each of them.
\<close>

subsection \<open>Numbers and text\<close>

definition digit_char :: "nat \<Rightarrow> char" where
  "digit_char d = char_of (48 + d)"

text \<open>Python's \<^verbatim>\<open>str(n)\<close> for a non-negative integer.\<close>

fun dec :: "nat \<Rightarrow> string" where
  "dec n = (if n < 10 then [digit_char n] else dec (n div 10) @ [digit_char (n mod 10)])"

declare dec.simps [simp del]

text \<open>Python's \<^verbatim>\<open>str(i)\<close> for an integer.\<close>

definition str_int :: "int \<Rightarrow> string" where
  "str_int i = (if i < 0 then CHR ''-'' # dec (nat (- i)) else dec (nat i))"

text \<open>The format specification \<^verbatim>\<open>0wd\<close>: zeros on the left up to the width \<open>w\<close>.\<close>

definition zpad :: "nat \<Rightarrow> nat \<Rightarrow> string" where
  "zpad w n = replicate (w - length (dec n)) CHR ''0'' @ dec n"

text \<open>Reading a decimal numeral back; only used to reason about \<open>dec\<close> and \<open>zpad\<close>.\<close>

definition digit_val :: "char \<Rightarrow> nat" where
  "digit_val c = of_char c - 48"

definition undec :: "string \<Rightarrow> nat" where
  "undec s = foldl (\<lambda>a c. 10 * a + digit_val c) 0 s"

definition is_digit :: "char \<Rightarrow> bool" where
  "is_digit c = (48 \<le> (of_char c :: nat) \<and> (of_char c :: nat) \<le> 57)"

text \<open>
  A naive local time as \<^verbatim>\<open>time.localtime()\<close> and \<^verbatim>\<open>datetime\<close> carry it.
\<close>

record datetime =
  year :: nat
  month :: nat
  day :: nat
  hour :: nat
  minute :: nat
  second :: nat

definition valid_datetime :: "datetime \<Rightarrow> bool" where
  "valid_datetime d =
     (1 \<le> year d \<and> year d \<le> 9999 \<and> 1 \<le> month d \<and> month d \<le> 12 \<and>
      1 \<le> day d \<and> day d \<le> 31 \<and> hour d < 24 \<and> minute d < 60 \<and> second d < 60)"

text \<open>\<^verbatim>\<open>strftime("%Y%m%d_%H%M%S")\<close>\<close>

definition strftime_compact :: "datetime \<Rightarrow> string" where
  "strftime_compact d =
     zpad 4 (year d) @ zpad 2 (month d) @ zpad 2 (day d) @ ''_'' @
     zpad 2 (hour d) @ zpad 2 (minute d) @ zpad 2 (second d)"

text \<open>\<^verbatim>\<open>strftime("%Y-%m-%dT%H:%M:%SZ")\<close>\<close>

definition strftime_iso :: "datetime \<Rightarrow> string" where
  "strftime_iso d =
     zpad 4 (year d) @ ''-'' @ zpad 2 (month d) @ ''-'' @ zpad 2 (day d) @ ''T'' @
     zpad 2 (hour d) @ '':'' @ zpad 2 (minute d) @ '':'' @ zpad 2 (second d) @ ''Z''"

text \<open>
  The file name of \<^verbatim>\<open>write_temp_json\<close>:
  \<^verbatim>\<open>f"{ts}_{time.time_ns()%1_000_000_000:09d}.json"\<close>. Python's \<^verbatim>\<open>%\<close> with a
  positive modulus is non-negative, as \<open>mod\<close> on \<open>int\<close> is.
\<close>

definition job_filename :: "datetime \<Rightarrow> int \<Rightarrow> string" where
  "job_filename tm ns =
     strftime_compact tm @ ''_'' @ zpad 9 (nat (ns mod 1000000000)) @ ''.json''"

text \<open>Two hexadecimal digits, lower case, as \<^verbatim>\<open>format(i, "02x")\<close> gives them for \<open>i < 256\<close>.\<close>

definition hex_digit :: "nat \<Rightarrow> char" where
  "hex_digit d = (if d < 10 then char_of (48 + d) else char_of (87 + d))"

definition hex2 :: "char \<Rightarrow> string" where
  "hex2 c = [hex_digit ((of_char c :: nat) div 16), hex_digit ((of_char c :: nat) mod 16)]"

text \<open>
  \<^verbatim>\<open>str.lower()\<close> on one code point below 256: the ASCII capitals and the Latin-1
  capitals \<open>0xC0 .. 0xDE\<close> (the multiplication sign \<open>0xD7\<close> apart) move up by 32.
\<close>

definition lower_char :: "char \<Rightarrow> char" where
  "lower_char c =
     (let n = (of_char c :: nat) in
      if (65 \<le> n \<and> n \<le> 90) \<or> (192 \<le> n \<and> n \<le> 222 \<and> n \<noteq> 215) then char_of (n + 32) else c)"

definition py_lower :: "string \<Rightarrow> string" where
  "py_lower s = map lower_char s"

text \<open>The substring test \<^verbatim>\<open>k in s\<close> on strings.\<close>

fun starts_with :: "string \<Rightarrow> string \<Rightarrow> bool" where
  "starts_with [] s = True"
| "starts_with (k # ks) [] = False"
| "starts_with (k # ks) (c # cs) = (k = c \<and> starts_with ks cs)"

fun py_in :: "string \<Rightarrow> string \<Rightarrow> bool" where
  "py_in k [] = (k = [])"
| "py_in k (c # cs) = (starts_with k (c # cs) \<or> py_in k cs)"

fun join_with :: "string \<Rightarrow> string list \<Rightarrow> string" where
  "join_with sep [] = []"
| "join_with sep [x] = x"
| "join_with sep (x # y # ys) = x @ sep @ join_with sep (y # ys)"

subsection \<open>Python values, exceptions and their text\<close>

datatype pyval = PyNone | PyInt int | PyStr string | PyDateTime datetime

text \<open>
  The exceptions of the model. \<open>OSError\<close> stands for the whole family that the file
  operations raise (\<^verbatim>\<open>FileNotFoundError\<close>, \<^verbatim>\<open>PermissionError\<close>,
  \<^verbatim>\<open>shutil.SameFileError\<close>, ...), \<open>ComError\<close> for \<^verbatim>\<open>pywintypes.com_error\<close>.
  The argument is the text \<^verbatim>\<open>str(e)\<close>.
\<close>

datatype exn = OSError string | AttributeError string | TypeError string | ComError string

fun exn_str :: "exn \<Rightarrow> string" where
  "exn_str (OSError m) = m"
| "exn_str (AttributeError m) = m"
| "exn_str (TypeError m) = m"
| "exn_str (ComError m) = m"

fun is_OSError :: "exn \<Rightarrow> bool" where
  "is_OSError (OSError m) = True"
| "is_OSError _ = False"

fun is_AttributeError :: "exn \<Rightarrow> bool" where
  "is_AttributeError (AttributeError m) = True"
| "is_AttributeError _ = False"

text \<open>Truth value of an object, as \<^verbatim>\<open>subj or ""\<close> tests it.\<close>

fun truthy :: "pyval \<Rightarrow> bool" where
  "truthy PyNone = False"
| "truthy (PyInt i) = (i \<noteq> 0)"
| "truthy (PyStr s) = (s \<noteq> [])"
| "truthy (PyDateTime d) = True"

text \<open>\<^verbatim>\<open>str(v)\<close>; a \<^verbatim>\<open>datetime\<close> prints as \<^verbatim>\<open>isoformat(sep=" ")\<close>.\<close>

fun py_str :: "pyval \<Rightarrow> string" where
  "py_str PyNone = ''None''"
| "py_str (PyInt i) = str_int i"
| "py_str (PyStr s) = s"
| "py_str (PyDateTime d) =
     zpad 4 (year d) @ ''-'' @ zpad 2 (month d) @ ''-'' @ zpad 2 (day d) @ '' '' @
     zpad 2 (hour d) @ '':'' @ zpad 2 (minute d) @ '':'' @ zpad 2 (second d)"

text \<open>
  \<^verbatim>\<open>recv.strftime("%Y-%m-%dT%H:%M:%SZ")\<close>: only a \<^verbatim>\<open>datetime\<close> has the method, on any
  other value the attribute lookup raises \<^verbatim>\<open>AttributeError\<close>.
\<close>

fun py_strftime_iso :: "pyval \<Rightarrow> exn + string" where
  "py_strftime_iso (PyDateTime d) = Inr (strftime_iso d)"
| "py_strftime_iso v = Inl (AttributeError ''object has no attribute strftime'')"

text \<open>
  \<^verbatim>\<open>repr\<close> of a string: single quotes unless the string holds a single quote and no
  double quote; backslash, the quote in use and the code points that are not printable
  are escaped.
\<close>

definition printable :: "char \<Rightarrow> bool" where
  "printable c =
     (let n = (of_char c :: nat) in \<not> (n < 32 \<or> (127 \<le> n \<and> n \<le> 160) \<or> n = 173))"

definition repr_char :: "char \<Rightarrow> char \<Rightarrow> string" where
  "repr_char q c =
     (if c = CHR 0x5C then [CHR 0x5C, CHR 0x5C]
      else if c = q then [CHR 0x5C, q]
      else if c = CHR 0x0A then [CHR 0x5C, CHR ''n'']
      else if c = CHR 0x0D then [CHR 0x5C, CHR ''r'']
      else if c = CHR 0x09 then [CHR 0x5C, CHR ''t'']
      else if printable c then [c]
      else [CHR 0x5C, CHR ''x''] @ hex2 c)"

definition py_repr :: "string \<Rightarrow> string" where
  "py_repr s =
     (let q = (if CHR 0x27 \<in> set s \<and> CHR 0x22 \<notin> set s then CHR 0x22 else CHR 0x27)
      in [q] @ concat (map (repr_char q) s) @ [q])"

text \<open>\<^verbatim>\<open>repr\<close> of a list of strings, as \<^verbatim>\<open>f"{cmd}"\<close> prints the command.\<close>

definition py_repr_list :: "string list \<Rightarrow> string" where
  "py_repr_list xs = ''['' @ join_with '', '' (map py_repr xs) @ '']''"

subsection \<open>\<^verbatim>\<open>json.dumps(data, ensure_ascii=False, indent=2)\<close>\<close>

text \<open>
  The encoder escapes the double quote, the backslash and the control characters
  below \<open>0x20\<close>; with \<^verbatim>\<open>ensure_ascii=False\<close> everything else is written as it is.
\<close>

definition json_escape_char :: "char \<Rightarrow> string" where
  "json_escape_char c =
     (if c = CHR 0x22 then [CHR 0x5C, CHR 0x22]
      else if c = CHR 0x5C then [CHR 0x5C, CHR 0x5C]
      else if c = CHR 0x0A then [CHR 0x5C, CHR ''n'']
      else if c = CHR 0x0D then [CHR 0x5C, CHR ''r'']
      else if c = CHR 0x09 then [CHR 0x5C, CHR ''t'']
      else if c = CHR 0x08 then [CHR 0x5C, CHR ''b'']
      else if c = CHR 0x0C then [CHR 0x5C, CHR ''f'']
      else if (of_char c :: nat) < 32 then [CHR 0x5C, CHR ''u'', CHR ''0'', CHR ''0''] @ hex2 c
      else [c])"

definition json_string :: "string \<Rightarrow> string" where
  "json_string s = [CHR 0x22] @ concat (map json_escape_char s) @ [CHR 0x22]"

fun json_value :: "pyval \<Rightarrow> exn + string" where
  "json_value PyNone = Inr ''null''"
| "json_value (PyInt i) = Inr (str_int i)"
| "json_value (PyStr s) = Inr (json_string s)"
| "json_value (PyDateTime d) = Inl (TypeError ''Object of type datetime is not JSON serializable'')"

text \<open>The members of an object in order; the first value that cannot be encoded raises.\<close>

fun json_members :: "(string \<times> pyval) list \<Rightarrow> exn + string list" where
  "json_members [] = Inr []"
| "json_members ((k, v) # kvs) =
     (case json_value v of
        Inl x \<Rightarrow> Inl x
      | Inr t \<Rightarrow>
          (case json_members kvs of
             Inl x \<Rightarrow> Inl x
           | Inr ts \<Rightarrow> Inr ((json_string k @ '': '' @ t) # ts)))"

definition json_dumps :: "(string \<times> pyval) list \<Rightarrow> exn + string" where
  "json_dumps data =
     (case json_members data of
        Inl x \<Rightarrow> Inl x
      | Inr ts \<Rightarrow>
          Inr (if ts = [] then ''{}''
               else ''{'' @ [CHR 0x0A] @ ''  '' @ join_with ('','' @ [CHR 0x0A] @ ''  '') ts @
                    [CHR 0x0A] @ ''}''))"

subsection \<open>Paths and the configuration\<close>

text \<open>A path is the list of its components; \<open>child d n\<close> is \<^verbatim>\<open>d / n\<close>.\<close>

type_synonym path = "string list"

definition parent :: "path \<Rightarrow> path" where
  "parent p = butlast p"

definition name :: "path \<Rightarrow> string" where
  "name p = (if p = [] then [] else last p)"

definition child :: "path \<Rightarrow> string \<Rightarrow> path" where
  "child d n = d @ [n]"

text \<open>\<^verbatim>\<open>str(p)\<close> on Windows.\<close>

definition path_str :: "path \<Rightarrow> string" where
  "path_str p = (if p = [] then ''.'' else join_with [CHR 0x5C] p)"

definition APP_UI :: path where
  "APP_UI = [''C:'', ''Users'', ''john.tan'', ''esker'', ''Scripts'', ''app_ui.py'']"

definition QUEUE_DIR :: path where
  "QUEUE_DIR = [''C:'', ''Users'', ''john.tan'', ''esker'', ''queue'']"

definition ARCHIVE_SUCCESS_DIR :: path where
  "ARCHIVE_SUCCESS_DIR = [''C:'', ''Users'', ''john.tan'', ''esker'', ''archive'', ''success'']"

definition KEYWORDS :: "string list" where
  "KEYWORDS = [''esker vendor email'', ''esker gl email'']"

text \<open>The backup directory, a local constant of \<^verbatim>\<open>write_temp_json\<close>.\<close>

definition downloads :: path where
  "downloads = [''C:'', ''Users'', ''john.tan'', ''Downloads'']"

subsection \<open>The surroundings: file system, console, executor\<close>

text \<open>
  \<^verbatim>\<open>ThreadPoolExecutor(max_workers=1, thread_name_prefix="esker-worker")\<close> with the
  calls submitted to it, oldest first. Running them is the library's business and not
  part of this model.
\<close>

record executor =
  max_workers :: nat
  thread_name_prefix :: string
  work_queue :: "path list"

text \<open>
  The state the program acts on. \<open>files\<close> maps the regular files to their text,
  \<open>dirs\<close> are the directories. \<open>denied\<close> holds the paths at which the operating system
  refuses to create, write or remove an entry (missing permission, a lock held by
  another process, an ancestor that cannot be created): an operation there raises
  \<^verbatim>\<open>OSError\<close>. \<open>console\<close> is what has been printed, \<open>global_executor\<close> the module
  variable \<^verbatim>\<open>_executor\<close>.
\<close>

record world =
  files :: "path \<rightharpoonup> string"
  dirs :: "path set"
  denied :: "path set"
  console :: "string list"
  global_executor :: "executor option"

record completed_process =
  returncode :: int
  stdout :: string
  stderr :: string

text \<open>
  What one run reads from its surroundings: the clock (\<open>now\<close> is the local time that
  \<^verbatim>\<open>time.strftime\<close> formats, \<open>time_ns\<close> the reading of \<^verbatim>\<open>time.time_ns()\<close>, \<open>ctime\<close>
  the text of \<^verbatim>\<open>time.ctime()\<close>), \<^verbatim>\<open>tempfile.gettempdir()\<close>, \<^verbatim>\<open>sys.executable\<close>,
  \<^verbatim>\<open>os.environ\<close>, and the outcome of \<^verbatim>\<open>subprocess.run\<close> for a command, a working
  directory and an environment: the completed process, or the exception when the
  command cannot be started. The worker process is outside the model; it is taken to
  leave the files of the listener alone.
\<close>

record env =
  now :: datetime
  time_ns :: int
  ctime :: string
  tempdir :: path
  python_exe :: string
  environ :: "string \<rightharpoonup> string"
  subprocess_run :: "string list \<Rightarrow> string \<Rightarrow> (string \<rightharpoonup> string) \<Rightarrow> exn + completed_process"

text \<open>Sequencing of steps that may raise: the first exception ends the sequence.\<close>

definition bind_io ::
  "(exn + 'a) \<times> world \<Rightarrow> ('a \<Rightarrow> world \<Rightarrow> (exn + 'b) \<times> world) \<Rightarrow> (exn + 'b) \<times> world" where
  "bind_io m f = (case m of (Inl x, w) \<Rightarrow> (Inl x, w) | (Inr a, w) \<Rightarrow> f a w)"

definition print_line :: "string \<Rightarrow> world \<Rightarrow> world" where
  "print_line s w = w\<lparr>console := console w @ [s]\<rparr>"

text \<open>A file can be created or overwritten at \<open>p\<close>.\<close>

definition writable :: "path \<Rightarrow> world \<Rightarrow> bool" where
  "writable p w = (parent p \<in> dirs w \<and> p \<notin> dirs w \<and> p \<notin> denied w)"

text \<open>\<^verbatim>\<open>d.mkdir(parents=True, exist_ok=True)\<close>\<close>

definition mkdir_parents :: "path \<Rightarrow> world \<Rightarrow> (exn + unit) \<times> world" where
  "mkdir_parents d w =
     (if d \<in> dirs w then (Inr (), w)
      else if d \<in> denied w \<or> files w d \<noteq> None then (Inl (OSError ''cannot create directory''), w)
      else (Inr (), w\<lparr>dirs := insert d (dirs w)\<rparr>))"

text \<open>\<^verbatim>\<open>p.write_text(s, encoding="utf-8")\<close>\<close>

definition write_text :: "path \<Rightarrow> string \<Rightarrow> world \<Rightarrow> (exn + unit) \<times> world" where
  "write_text p s w =
     (if writable p w then (Inr (), w\<lparr>files := (files w)(p \<mapsto> s)\<rparr>)
      else (Inl (OSError ''cannot open file for writing''), w))"

text \<open>\<^verbatim>\<open>with p.open("a", encoding="utf-8") as f: f.write(s)\<close>\<close>

definition append_text :: "path \<Rightarrow> string \<Rightarrow> world \<Rightarrow> (exn + unit) \<times> world" where
  "append_text p s w =
     (if writable p w
      then (Inr (), w\<lparr>files := (files w)(p \<mapsto> (case files w p of None \<Rightarrow> s | Some t \<Rightarrow> t @ s))\<rparr>)
      else (Inl (OSError ''cannot open file for appending''), w))"

text \<open>
  \<^verbatim>\<open>shutil.copy2(src, dst)\<close>: a destination that is a directory receives the file
  under the name of the source; copying a file onto itself raises
  \<^verbatim>\<open>SameFileError\<close>.
\<close>

definition copy2 :: "path \<Rightarrow> path \<Rightarrow> world \<Rightarrow> (exn + unit) \<times> world" where
  "copy2 src dst w =
     (let target = (if dst \<in> dirs w then child dst (name src) else dst) in
      case files w src of
        None \<Rightarrow> (Inl (OSError ''No such file or directory''), w)
      | Some t \<Rightarrow>
          if target = src then (Inl (OSError ''are the same file''), w)
          else if writable target w then (Inr (), w\<lparr>files := (files w)(target \<mapsto> t)\<rparr>)
          else (Inl (OSError ''cannot open file for writing''), w))"

text \<open>\<^verbatim>\<open>p.unlink()\<close>\<close>

definition unlink :: "path \<Rightarrow> world \<Rightarrow> (exn + unit) \<times> world" where
  "unlink p w =
     (if files w p \<noteq> None \<and> p \<notin> denied w then (Inr (), w\<lparr>files := (files w)(p := None)\<rparr>)
      else (Inl (OSError ''cannot remove file''), w))"

subsection \<open>The subject filter and the payload writer\<close>

text \<open>
  \<^verbatim>\<open>subject_hit\<close>: \<^verbatim>\<open>s = (subj or "").lower()\<close>, then
  \<^verbatim>\<open>any(k in s for k in KEYWORDS)\<close>. Only a string has \<^verbatim>\<open>lower\<close>.
\<close>

definition subject_hit :: "pyval \<Rightarrow> exn + bool" where
  "subject_hit subj =
     (case (if truthy subj then subj else PyStr []) of
        PyStr s \<Rightarrow> Inr (list_ex (\<lambda>k. py_in k (py_lower s)) KEYWORDS)
      | _ \<Rightarrow> Inl (AttributeError ''object has no attribute lower''))"

definition write_temp_json :: "env \<Rightarrow> (string \<times> pyval) list \<Rightarrow> world \<Rightarrow> (exn + path) \<times> world" where
  "write_temp_json e data w =
     bind_io (mkdir_parents QUEUE_DIR w) (\<lambda>_ w1.
       let fname = job_filename (now e) (time_ns e);
           p = child QUEUE_DIR fname
       in case json_dumps data of
            Inl x \<Rightarrow> (Inl x, w1)
          | Inr text \<Rightarrow>
              bind_io (write_text p text w1) (\<lambda>_ w2.
              bind_io (mkdir_parents downloads w2) (\<lambda>_ w3.
              bind_io (copy2 p (child downloads (name p)) w3) (\<lambda>_ w4.
              (Inr p, w4)))))"

subsection \<open>The dispatcher hand-off\<close>

definition ensure_worker_executor :: "world \<Rightarrow> executor \<times> world" where
  "ensure_worker_executor w =
     (case global_executor w of
        None \<Rightarrow>
          (let ex = \<lparr>max_workers = 1, thread_name_prefix = ''esker-worker'', work_queue = []\<rparr>
           in (ex, w\<lparr>global_executor := Some ex\<rparr>))
      | Some ex \<Rightarrow> (ex, w))"

text \<open>\<^verbatim>\<open>executor.submit(worker_task, json_path)\<close> puts the call at the end of the queue.\<close>

definition enqueue_worker :: "path \<Rightarrow> world \<Rightarrow> world" where
  "enqueue_worker json_path w =
     (let w1 = print_line (''[listener] Queued automation job for '' @ name json_path) w;
          (ex, w2) = ensure_worker_executor w1
      in w2\<lparr>global_executor := Some (ex\<lparr>work_queue := work_queue ex @ [json_path]\<rparr>)\<rparr>)"

subsection \<open>The event handler\<close>

text \<open>
  A COM attribute of the item: missing, raising when read, or holding a value.
\<close>

datatype attr = Absent | Raises exn | Holds pyval

record item =
  item_Class :: attr
  item_Subject :: attr
  item_SenderEmailAddress :: attr
  item_Body :: attr
  item_ReceivedTime :: attr
  item_EntryID :: attr

text \<open>\<^verbatim>\<open>getattr(item, name, default)\<close> swallows \<^verbatim>\<open>AttributeError\<close> and nothing else.\<close>

fun getattr_default :: "attr \<Rightarrow> pyval \<Rightarrow> exn + pyval" where
  "getattr_default Absent d = Inr d"
| "getattr_default (Raises x) d = (if is_AttributeError x then Inr d else Inl x)"
| "getattr_default (Holds v) d = Inr v"

text \<open>The plain attribute access \<^verbatim>\<open>item.ReceivedTime\<close>.\<close>

fun getattr :: "attr \<Rightarrow> exn + pyval" where
  "getattr Absent = Inl (AttributeError ''object has no attribute'')"
| "getattr (Raises x) = Inl x"
| "getattr (Holds v) = Inr v"

text \<open>
  Lines 369 to 372 of the handler: \<^verbatim>\<open>recv.strftime("%Y-%m-%dT%H:%M:%SZ")\<close>, and
  \<^verbatim>\<open>str(recv)\<close> when that raises.
\<close>

definition recv_str :: "pyval \<Rightarrow> string" where
  "recv_str recv = (case py_strftime_iso recv of Inl x \<Rightarrow> py_str recv | Inr s \<Rightarrow> s)"

text \<open>
  Lines 366 to 380 of the handler: the fields read after the subject has matched, in
  the order the source reads them, and the record built from them.
\<close>

definition build_payload :: "item \<Rightarrow> pyval \<Rightarrow> exn + (string \<times> pyval) list" where
  "build_payload it subj =
     (case getattr_default (item_SenderEmailAddress it) (PyStr []) of
        Inl x \<Rightarrow> Inl x
      | Inr sender \<Rightarrow>
     (case getattr_default (item_Body it) (PyStr []) of
        Inl x \<Rightarrow> Inl x
      | Inr body \<Rightarrow>
     (case getattr (item_ReceivedTime it) of
        Inl x \<Rightarrow> Inl x
      | Inr recv \<Rightarrow>
     (case getattr_default (item_EntryID it) (PyStr []) of
        Inl x \<Rightarrow> Inl x
      | Inr entry_id \<Rightarrow>
          Inr [(''subject'', subj),
               (''sender_address'', sender),
               (''received_utc'', PyStr (recv_str recv)),
               (''body'', body),
               (''entry_id'', entry_id)]))))"

text \<open>The body of the \<^verbatim>\<open>try\<close> block of \<^verbatim>\<open>OnItemAdd\<close>.\<close>

definition OnItemAdd_try :: "env \<Rightarrow> item \<Rightarrow> world \<Rightarrow> (exn + unit) \<times> world" where
  "OnItemAdd_try e it w =
     (case getattr_default (item_Class it) PyNone of
        Inl x \<Rightarrow> (Inl x, w)
      | Inr cls \<Rightarrow>
          if cls \<noteq> PyInt 43 then (Inr (), w)
          else
            (case getattr_default (item_Subject it) (PyStr []) of
               Inl x \<Rightarrow> (Inl x, w)
             | Inr subj \<Rightarrow>
                 (case subject_hit subj of
                    Inl x \<Rightarrow> (Inl x, w)
                  | Inr hit \<Rightarrow>
                      if \<not> hit then (Inr (), w)
                      else
                        (case build_payload it subj of
                           Inl x \<Rightarrow> (Inl x, w)
                         | Inr payload \<Rightarrow>
                             bind_io (write_temp_json e payload w) (\<lambda>json_path w1.
                               let w2 = print_line (''[listener] Triggered for: '' @ py_str subj @
                                                    '' -> '' @ path_str json_path) w1
                               in (Inr (), enqueue_worker json_path w2))))))"

definition error_log :: "env \<Rightarrow> path" where
  "error_log e = child (tempdir e) ''esker_listener_errors.log''"

text \<open>
  \<^verbatim>\<open>OnItemAdd\<close>: the \<^verbatim>\<open>except Exception\<close> clause appends one line to the error log.
  The append is not guarded, so an exception it raises leaves the handler.
\<close>

definition OnItemAdd :: "env \<Rightarrow> item \<Rightarrow> world \<Rightarrow> (exn + unit) \<times> world" where
  "OnItemAdd e it w =
     (case OnItemAdd_try e it w of
        (Inr u, w1) \<Rightarrow> (Inr u, w1)
      | (Inl x, w1) \<Rightarrow>
          append_text (error_log e)
            (ctime e @ '' OnItemAdd error: '' @ exn_str x @ [CHR 0x0A]) w1)"

subsection \<open>The worker wrapper and the archive step\<close>

definition runner_log :: "env \<Rightarrow> path" where
  "runner_log e = child (tempdir e) ''esker_listener_runner.log''"

definition worker_cmd :: "env \<Rightarrow> string list" where
  "worker_cmd e = [python_exe e, path_str APP_UI, ''--mode=worker'']"

text \<open>The environment handed to the worker process.\<close>

definition worker_environ :: "env \<Rightarrow> path \<Rightarrow> (string \<rightharpoonup> string)" where
  "worker_environ e json_path =
     ((environ e)(''ESKER_DRYRUN'' := None))
       (''ESKER_VENDOR_JSON_DIR'' \<mapsto> path_str (parent json_path),
        ''ESKER_VENDOR_JSON_PATTERN'' \<mapsto> name json_path)"

text \<open>The text appended to the runner log after the process has ended.\<close>

definition run_report :: "env \<Rightarrow> path \<Rightarrow> completed_process \<Rightarrow> string" where
  "run_report e json_path result =
     ctime e @ '' ran '' @ py_repr_list (worker_cmd e) @ '' for '' @ name json_path @
       '' -> rc='' @ str_int (returncode result) @ [CHR 0x0A] @
     (if stdout result \<noteq> [] then ''stdout:'' @ [CHR 0x0A] @ stdout result @ [CHR 0x0A] else []) @
     (if stderr result \<noteq> [] then ''stderr:'' @ [CHR 0x0A] @ stderr result @ [CHR 0x0A] else [])"

definition run_worker :: "env \<Rightarrow> path \<Rightarrow> world \<Rightarrow> (exn + unit) \<times> world" where
  "run_worker e json_path w =
     (let w1 = print_line (''[listener] Starting automation for '' @ name json_path) w in
      case subprocess_run e (worker_cmd e) (path_str (parent APP_UI)) (worker_environ e json_path) of
        Inl x \<Rightarrow> (Inl x, w1)
      | Inr result \<Rightarrow>
          bind_io (append_text (runner_log e) (run_report e json_path result) w1) (\<lambda>_ w2.
            if returncode result = 0 then
              bind_io (mkdir_parents ARCHIVE_SUCCESS_DIR w2) (\<lambda>_ w3.
              bind_io (copy2 json_path (child ARCHIVE_SUCCESS_DIR (name json_path)) w3) (\<lambda>_ w4.
                case unlink json_path w4 of
                  (Inl x, w5) \<Rightarrow>
                    if is_OSError x
                    then (Inr (), print_line (''[listener] Worker completed; archived to '' @
                            path_str (child ARCHIVE_SUCCESS_DIR (name json_path))) w5)
                    else (Inl x, w5)
                | (Inr _, w5) \<Rightarrow>
                    (Inr (), print_line (''[listener] Worker completed; archived to '' @
                            path_str (child ARCHIVE_SUCCESS_DIR (name json_path))) w5)))
            else
              (Inr (), print_line (''[listener] Worker failed for '' @ name json_path @
                         ''; see '' @ path_str (runner_log e)) w2)))"


subsection \<open>Predicates used to state the properties\<close>

text \<open>The path \<^verbatim>\<open>QUEUE_DIR / fname\<close> that \<^verbatim>\<open>write_temp_json\<close> gives a job.\<close>

definition job_path :: "datetime \<Rightarrow> int \<Rightarrow> path" where
  "job_path tm ns = child QUEUE_DIR (job_filename tm ns)"

text \<open>Where \<^verbatim>\<open>run_worker\<close> archives a job: \<^verbatim>\<open>ARCHIVE_SUCCESS_DIR / json_path.name\<close>.\<close>

definition archive_path :: "path \<Rightarrow> path" where
  "archive_path json_path = child ARCHIVE_SUCCESS_DIR (name json_path)"

text \<open>Where \<^verbatim>\<open>write_temp_json\<close> mirrors a job: \<^verbatim>\<open>downloads / p.name\<close>.\<close>

definition backup_path :: "path \<Rightarrow> path" where
  "backup_path json_path = child downloads (name json_path)"

text \<open>The text of a record that can be encoded.\<close>

definition json_text :: "(string \<times> pyval) list \<Rightarrow> string" where
  "json_text data = (case json_dumps data of Inl x \<Rightarrow> [] | Inr t \<Rightarrow> t)"

text \<open>The outcome of \<^verbatim>\<open>subprocess.run\<close> as \<^verbatim>\<open>run_worker\<close> calls it for a job.\<close>

definition worker_outcome :: "env \<Rightarrow> path \<Rightarrow> exn + completed_process" where
  "worker_outcome e json_path =
     subprocess_run e (worker_cmd e) (path_str (parent APP_UI)) (worker_environ e json_path)"


text \<open>\<open>mkdir_parents d\<close> succeeds: \<open>d\<close> is a directory already or can be created.\<close>

definition can_mkdir :: "path \<Rightarrow> world \<Rightarrow> bool" where
  "can_mkdir d w = (d \<in> dirs w \<or> (d \<notin> denied w \<and> files w d = None))"

text \<open>The shape \<^verbatim>\<open>YYYY-MM-DDTHH:MM:SSZ\<close> of an ISO-8601 time stamp with the suffix \<open>Z\<close>.\<close>

definition iso8601_z :: "string \<Rightarrow> bool" where
  "iso8601_z s =
     (length s = 20 \<and>
      list_all is_digit (take 4 s) \<and> s ! 4 = CHR ''-'' \<and>
      list_all is_digit (take 2 (drop 5 s)) \<and> s ! 7 = CHR ''-'' \<and>
      list_all is_digit (take 2 (drop 8 s)) \<and> s ! 10 = CHR ''T'' \<and>
      list_all is_digit (take 2 (drop 11 s)) \<and> s ! 13 = CHR '':'' \<and>
      list_all is_digit (take 2 (drop 14 s)) \<and> s ! 16 = CHR '':'' \<and>
      list_all is_digit (take 2 (drop 17 s)) \<and> s ! 19 = CHR ''Z'')"

text \<open>
  A value is a string; an attribute gives a string wherever \<^verbatim>\<open>getattr\<close> with the
  default \<^verbatim>\<open>""\<close> gives a value at all.
\<close>

definition is_str :: "pyval \<Rightarrow> bool" where
  "is_str v = (case v of PyStr s \<Rightarrow> True | _ \<Rightarrow> False)"

definition str_attr :: "attr \<Rightarrow> bool" where
  "str_attr a = (case a of Holds v \<Rightarrow> is_str v | _ \<Rightarrow> True)"

subsection \<open>Concrete inputs\<close>

definition ex_now :: datetime where
  "ex_now = \<lparr>year = 2025, month = 10, day = 31, hour = 8, minute = 15, second = 0\<rparr>"

definition ex_result :: "int \<Rightarrow> completed_process" where
  "ex_result rc = \<lparr>returncode = rc, stdout = ''done'', stderr = []\<rparr>"

text \<open>A run whose worker process ends with the return code \<open>rc\<close>.\<close>

definition ex_env :: "int \<Rightarrow> env" where
  "ex_env rc =
     \<lparr>now = ex_now, time_ns = 1761898500123456789, ctime = ''Fri Oct 31 08:15:00 2025'',
      tempdir = [''C:'', ''Temp''], python_exe = ''python.exe'', environ = Map.empty,
      subprocess_run = (\<lambda>cmd cwd ev. Inr (ex_result rc))\<rparr>"


definition ex_job :: path where
  "ex_job = child QUEUE_DIR ''20251031_081500_123456789.json''"

text \<open>
  Worlds: empty but for the temporary directory; with one job in the queue; and the
  same with the paths in \<open>ps\<close> refused by the operating system.
\<close>

definition ex_world :: world where
  "ex_world =
     \<lparr>files = Map.empty, dirs = {[''C:'', ''Temp'']}, denied = {}, console = [],
      global_executor = None\<rparr>"

definition ex_world_job :: world where
  "ex_world_job = ex_world\<lparr>files := [ex_job \<mapsto> ''{}''], dirs := {[''C:'', ''Temp''], QUEUE_DIR}\<rparr>"

text \<open>The queue with one job whose file another process keeps open, so that it cannot be removed.\<close>

definition ex_world_locked :: world where
  "ex_world_locked = ex_world_job\<lparr>denied := {ex_job}\<rparr>"


definition ex_item :: item where
  "ex_item =
     \<lparr>item_Class = Holds (PyInt 43),
      item_Subject = Holds (PyStr ''ESKER VENDOR EMAIL - batch 12''),
      item_SenderEmailAddress = Holds (PyStr ''vendor@example.com''),
      item_Body = Holds (PyStr ''hello''),
      item_ReceivedTime = Holds (PyDateTime ex_now),
      item_EntryID = Holds (PyStr ''00000000A1'')\<rparr>"

text \<open>The record that \<^verbatim>\<open>OnItemAdd\<close> builds from \<open>ex_item\<close>.\<close>

definition ex_payload :: "(string \<times> pyval) list" where
  "ex_payload =
     [(''subject'', PyStr ''ESKER VENDOR EMAIL - batch 12''),
      (''sender_address'', PyStr ''vendor@example.com''),
      (''received_utc'', PyStr ''2025-10-31T08:15:00Z''),
      (''body'', PyStr ''hello''),
      (''entry_id'', PyStr ''00000000A1'')]"

text \<open>
  Items like \<open>ex_item\<close>: one whose \<^verbatim>\<open>ReceivedTime\<close> cannot be read, one whose
  \<^verbatim>\<open>ReceivedTime\<close> is \<^verbatim>\<open>None\<close>.
\<close>

definition ex_item_broken :: item where
  "ex_item_broken = ex_item\<lparr>item_ReceivedTime := Raises (ComError ''The RPC server is unavailable'')\<rparr>"

definition ex_item_norecv :: item where
  "ex_item_norecv = ex_item\<lparr>item_ReceivedTime := Holds PyNone\<rparr>"

definition ex_payload_norecv :: "(string \<times> pyval) list" where
  "ex_payload_norecv =
     [(''subject'', PyStr ''ESKER VENDOR EMAIL - batch 12''),
      (''sender_address'', PyStr ''vendor@example.com''),
      (''received_utc'', PyStr ''None''),
      (''body'', PyStr ''hello''),
      (''entry_id'', PyStr ''00000000A1'')]"


definition ex_world_nobackup :: world where
  "ex_world_nobackup = ex_world\<lparr>denied := {downloads}\<rparr>"

definition ex_world_noerrlog :: world where
  "ex_world_noerrlog = ex_world\<lparr>denied := {[''C:'', ''Temp'', ''esker_listener_errors.log'']}\<rparr>"

text \<open>A second reading of the clock, one nanosecond later, and the job path it gives.\<close>

definition ex_env_later :: env where
  "ex_env_later = (ex_env 0)\<lparr>time_ns := 1761898500123456790\<rparr>"

definition ex_job_later :: path where
  "ex_job_later = child QUEUE_DIR ''20251031_081500_123456790.json''"

section \<open>Properties\<close>

subsection \<open>Lemmas on decimal numerals\<close>

lemma digit_val_digit_char: "d < 10 \<Longrightarrow> digit_val (digit_char d) = d"
  by (simp add: digit_val_def digit_char_def)

lemma undec_snoc: "undec (s @ [c]) = 10 * undec s + digit_val c"
  by (simp add: undec_def)

lemma undec_dec: "undec (dec n) = n"
proof (induction n rule: dec.induct)
  case (1 n)
  show ?case
  proof (cases "n < 10")
    case True
    then show ?thesis
      by (simp add: dec.simps [of n] undec_def digit_val_digit_char)
  next
    case False
    then have "undec (dec n) = 10 * undec (dec (n div 10)) + digit_val (digit_char (n mod 10))"
      by (simp add: dec.simps [of n] undec_snoc)
    also have "\<dots> = 10 * (n div 10) + n mod 10"
      using 1 False by (simp add: digit_val_digit_char)
    finally show ?thesis by simp
  qed
qed

lemma undec_zeros: "undec (replicate k CHR ''0'' @ s) = undec s"
proof -
  have "foldl (\<lambda>a c. 10 * a + digit_val c) 0 (replicate k CHR ''0'') = 0"
    by (induction k) (simp_all add: digit_val_def)
  then show ?thesis by (simp add: undec_def)
qed

lemma undec_zpad: "undec (zpad w n) = n"
  by (simp add: zpad_def undec_zeros undec_dec)

lemma zpad_inject: "zpad w n = zpad w m \<Longrightarrow> n = m"
  by (metis undec_zpad)

lemma job_filename_inject:
  assumes "job_filename tm ns1 = job_filename tm ns2"
  shows "ns1 mod 1000000000 = ns2 mod 1000000000"
proof -
  from assms have "zpad 9 (nat (ns1 mod 1000000000)) = zpad 9 (nat (ns2 mod 1000000000))"
    by (simp add: job_filename_def)
  then have "nat (ns1 mod 1000000000) = nat (ns2 mod 1000000000)"
    by (rule zpad_inject)
  then show ?thesis by simp
qed

subsection \<open>Paths and the file operations\<close>

lemmas char_eval = char_of_def bit_0

lemma name_child [simp]: "name (child d n) = n"
  by (simp add: name_def child_def)

lemma parent_child [simp]: "parent (child d n) = d"
  by (simp add: parent_def child_def)

lemma child_inject [simp]: "(child d n = child d' n') = (d = d' \<and> n = n')"
  by (simp add: child_def)

lemma child_not_self [simp]: "child d n \<noteq> d"
  by (simp add: child_def)

lemma job_filename_last: "last (job_filename tm ns) = CHR ''n''"
  by (simp add: job_filename_def)

lemma job_filename_not_log:
  "job_filename tm ns \<noteq> ''esker_listener_runner.log''"
  "job_filename tm ns \<noteq> ''esker_listener_errors.log''"
  using job_filename_last [of tm ns] by auto

lemma job_file_not_log:
  "child d (job_filename tm ns) \<noteq> runner_log e"
  "child d (job_filename tm ns) \<noteq> error_log e"
  by (simp_all add: runner_log_def error_log_def job_filename_not_log)

lemma job_path_not_log [simp]:
  "job_path tm ns \<noteq> runner_log e" "job_path tm ns \<noteq> error_log e"
  "archive_path (job_path tm ns) \<noteq> runner_log e"
  by (simp_all add: job_path_def archive_path_def job_file_not_log)

lemma name_job_path [simp]: "name (job_path tm ns) = job_filename tm ns"
  by (simp add: job_path_def)

lemma archive_not_log [simp]: "ARCHIVE_SUCCESS_DIR \<noteq> runner_log e"
  by (simp add: runner_log_def child_def ARCHIVE_SUCCESS_DIR_def)

lemma archive_not_job [simp]:
  "archive_path (job_path tm ns) \<noteq> job_path tm ns"
  "job_path tm ns \<noteq> archive_path (job_path tm ns)"
  by (simp_all add: archive_path_def job_path_def QUEUE_DIR_def ARCHIVE_SUCCESS_DIR_def)

lemma archive_path_not_dir [simp]: "archive_path p \<noteq> ARCHIVE_SUCCESS_DIR"
  by (simp add: archive_path_def)

lemma parent_archive_path [simp]: "parent (archive_path p) = ARCHIVE_SUCCESS_DIR"
  by (simp add: archive_path_def)

lemma name_archive_path [simp]: "name (archive_path p) = name p"
  by (simp add: archive_path_def)

lemma print_line_frame [simp]:
  "files (print_line s w) = files w" "dirs (print_line s w) = dirs w"
  "denied (print_line s w) = denied w" "global_executor (print_line s w) = global_executor w"
  by (simp_all add: print_line_def)

lemma writable_print_line [simp]: "writable p (print_line s w) = writable p w"
  by (simp add: writable_def)

lemma ex_job_filename:
  "job_filename ex_now 1761898500123456789 = ''20251031_081500_123456789.json''"
  by (simp add: job_filename_def strftime_compact_def zpad_def ex_now_def dec.simps digit_char_def
      char_eval)

lemma ex_job_path: "job_path ex_now 1761898500123456789 = ex_job"
  by (simp add: job_path_def ex_job_def ex_job_filename)


subsection \<open>The worker wrapper: a failed worker\<close>

lemma run_worker_failed_frame:
  assumes "worker_outcome e p = Inr result"
    and "returncode result \<noteq> 0"
    and "run_worker e p w = (r, w')"
  shows "dirs w' = dirs w \<and> denied w' = denied w \<and>
         (\<forall>q. q \<noteq> runner_log e \<longrightarrow> files w' q = files w q)"
  using assms
  by (auto simp: run_worker_def worker_outcome_def bind_io_def Let_def append_text_def
      split: if_splits)

text \<open>
  Claim C3. When the worker process of a job ends with a return code other than 0,
  \<^verbatim>\<open>run_worker\<close> leaves the job file in the queue directory with the text it had,
  puts nothing at the job's place in the success archive, and creates no directory.
  This holds whether or not the report can be appended to the runner log.
\<close>

theorem run_worker_nonzero_leaves_job:
  assumes "worker_outcome e (job_path tm ns) = Inr result"
    and "returncode result \<noteq> 0"
  shows "files (snd (run_worker e (job_path tm ns) w)) (job_path tm ns) = files w (job_path tm ns)
       \<and> files (snd (run_worker e (job_path tm ns) w)) (archive_path (job_path tm ns))
         = files w (archive_path (job_path tm ns))
       \<and> dirs (snd (run_worker e (job_path tm ns) w)) = dirs w"
proof -
  obtain r w' where rw: "run_worker e (job_path tm ns) w = (r, w')"
    by (cases "run_worker e (job_path tm ns) w")
  from run_worker_failed_frame [OF assms rw] rw
  show ?thesis by simp
qed

theorem run_worker_nonzero_leaves_job_witness:
  "worker_outcome (ex_env 1) (job_path ex_now 1761898500123456789) = Inr (ex_result 1)
   \<and> returncode (ex_result 1) \<noteq> 0
   \<and> files (snd (run_worker (ex_env 1) (job_path ex_now 1761898500123456789) ex_world_job)) ex_job
     = Some ''{}''
   \<and> files (snd (run_worker (ex_env 1) (job_path ex_now 1761898500123456789) ex_world_job))
       (archive_path ex_job) = None"
proof -
  have h1: "worker_outcome (ex_env 1) (job_path ex_now 1761898500123456789) = Inr (ex_result 1)"
    by (simp add: worker_outcome_def ex_env_def)
  have h2: "returncode (ex_result 1) \<noteq> 0"
    by (simp add: ex_result_def)
  have w: "files ex_world_job ex_job = Some ''{}''" "files ex_world_job (archive_path ex_job) = None"
    by (simp_all add: ex_world_job_def ex_world_def ex_job_def archive_path_def QUEUE_DIR_def
        ARCHIVE_SUCCESS_DIR_def child_def)
  from run_worker_nonzero_leaves_job [OF h1 h2, of ex_world_job] h1 h2 w
  show ?thesis by (simp add: ex_job_path)
qed

subsection \<open>The worker wrapper: a successful worker\<close>

lemma run_worker_success_effect:
  assumes sub: "worker_outcome e (job_path tm ns) = Inr result"
    and rc: "returncode result = 0"
    and job: "files w (job_path tm ns) = Some c"
    and log: "writable (runner_log e) w"
    and arch: "can_mkdir ARCHIVE_SUCCESS_DIR w"
    and t1: "archive_path (job_path tm ns) \<notin> dirs w"
    and t2: "archive_path (job_path tm ns) \<notin> denied w"
  shows "fst (run_worker e (job_path tm ns) w) = Inr ()
       \<and> ARCHIVE_SUCCESS_DIR \<in> dirs (snd (run_worker e (job_path tm ns) w))
       \<and> files (snd (run_worker e (job_path tm ns) w)) (archive_path (job_path tm ns)) = Some c
       \<and> name (archive_path (job_path tm ns)) = name (job_path tm ns)
       \<and> files (snd (run_worker e (job_path tm ns) w)) (job_path tm ns)
         = (if job_path tm ns \<in> denied w then Some c else None)"
proof -
  let ?p = "job_path tm ns"
  let ?a = "archive_path ?p"
  let ?msg = "''[listener] Worker completed; archived to '' @
              path_str (child ARCHIVE_SUCCESS_DIR (name ?p))"
  define w1 where "w1 = print_line (''[listener] Starting automation for '' @ name ?p) w"
  define w2 where "w2 = w1\<lparr>files := (files w1)(runner_log e \<mapsto>
      (case files w1 (runner_log e) of None \<Rightarrow> run_report e ?p result
       | Some t \<Rightarrow> t @ run_report e ?p result))\<rparr>"
  define w3 where "w3 = (if ARCHIVE_SUCCESS_DIR \<in> dirs w2 then w2
      else w2\<lparr>dirs := insert ARCHIVE_SUCCESS_DIR (dirs w2)\<rparr>)"
  define w4 where "w4 = w3\<lparr>files := (files w3)(?a \<mapsto> c)\<rparr>"
  define w5 where "w5 = (if ?p \<in> denied w then w4 else w4\<lparr>files := (files w4)(?p := None)\<rparr>)"
  have f1: "dirs w1 = dirs w" "denied w1 = denied w" "files w1 = files w"
    by (simp_all add: w1_def)
  have s1: "append_text (runner_log e) (run_report e ?p result) w1 = (Inr (), w2)"
    using log by (simp add: append_text_def writable_def f1 w2_def)
  have f2: "dirs w2 = dirs w" "denied w2 = denied w"
    "files w2 ?p = Some c" "files w2 ARCHIVE_SUCCESS_DIR = files w ARCHIVE_SUCCESS_DIR"
    using job by (simp_all add: w2_def f1)
  have s2: "mkdir_parents ARCHIVE_SUCCESS_DIR w2 = (Inr (), w3)"
    using arch by (auto simp: mkdir_parents_def can_mkdir_def f2 w3_def)
  have f3: "ARCHIVE_SUCCESS_DIR \<in> dirs w3" "?a \<notin> dirs w3" "denied w3 = denied w"
    "files w3 ?p = Some c"
    using t1 by (simp_all add: w3_def f2)
  have s3: "copy2 ?p ?a w3 = (Inr (), w4)"
    using t2 by (simp add: copy2_def writable_def f3 w4_def)
  have f4: "ARCHIVE_SUCCESS_DIR \<in> dirs w4" "denied w4 = denied w"
    "files w4 ?p = Some c" "files w4 ?a = Some c"
    by (simp_all add: w4_def f3)
  have s4: "unlink ?p w4 = (if ?p \<in> denied w then (Inl (OSError ''cannot remove file''), w5)
      else (Inr (), w5))"
    by (simp add: unlink_def f4 w5_def)
  have f5: "ARCHIVE_SUCCESS_DIR \<in> dirs w5" "files w5 ?a = Some c"
    "files w5 ?p = (if ?p \<in> denied w then Some c else None)"
    by (simp_all add: w5_def f4)
  have "subprocess_run e (worker_cmd e) (path_str (parent APP_UI)) (worker_environ e ?p) = Inr result"
    using sub by (simp add: worker_outcome_def)
  then have "run_worker e ?p w = (Inr (), print_line ?msg w5)"
    unfolding run_worker_def Let_def w1_def [symmetric] archive_path_def [symmetric]
    by (simp add: rc bind_io_def s1 s2 s3 s4)
  then show ?thesis
    by (simp add: f5)
qed

text \<open>
  Claim C2, as amended. When the worker process of a job ends with return code 0, the
  report can be appended to the runner log, the archive directory exists or can be
  created and the job's place in it can be written, then \<^verbatim>\<open>run_worker\<close> returns
  normally, the archive directory exists, and the archive holds the text of the job
  file under the same file name. The job file is gone from the queue directory when the
  operating system lets it be removed; when the removal raises \<^verbatim>\<open>OSError\<close> the
  error is swallowed and the job file stays in the queue with its text.
\<close>

theorem run_worker_success_archives:
  assumes sub: "worker_outcome e (job_path tm ns) = Inr result"
    and rc: "returncode result = 0"
    and job: "files w (job_path tm ns) = Some c"
    and log: "writable (runner_log e) w"
    and arch: "can_mkdir ARCHIVE_SUCCESS_DIR w"
    and t1: "archive_path (job_path tm ns) \<notin> dirs w"
    and t2: "archive_path (job_path tm ns) \<notin> denied w"
  shows "fst (run_worker e (job_path tm ns) w) = Inr ()
       \<and> ARCHIVE_SUCCESS_DIR \<in> dirs (snd (run_worker e (job_path tm ns) w))
       \<and> files (snd (run_worker e (job_path tm ns) w)) (archive_path (job_path tm ns)) = Some c
       \<and> name (archive_path (job_path tm ns)) = name (job_path tm ns)
       \<and> files (snd (run_worker e (job_path tm ns) w)) (job_path tm ns)
         = (if job_path tm ns \<in> denied w then Some c else None)"
  using assms by (rule run_worker_success_effect)

lemma ex_world_job_facts:
  "files ex_world_job ex_job = Some ''{}''"
  "files ex_world_job (archive_path ex_job) = None"
  "writable (runner_log (ex_env rc)) ex_world_job"
  "can_mkdir ARCHIVE_SUCCESS_DIR ex_world_job"
  "archive_path ex_job \<notin> dirs ex_world_job"
  "archive_path ex_job \<notin> denied ex_world_job"
  "ex_job \<notin> denied ex_world_job"
  by (simp_all add: ex_world_job_def ex_world_def ex_job_def archive_path_def QUEUE_DIR_def
      ARCHIVE_SUCCESS_DIR_def child_def writable_def can_mkdir_def runner_log_def ex_env_def
      parent_def)

theorem run_worker_success_archives_witness:
  "worker_outcome (ex_env 0) (job_path ex_now 1761898500123456789) = Inr (ex_result 0)
   \<and> returncode (ex_result 0) = 0
   \<and> files ex_world_job ex_job = Some ''{}''
   \<and> writable (runner_log (ex_env 0)) ex_world_job
   \<and> can_mkdir ARCHIVE_SUCCESS_DIR ex_world_job
   \<and> archive_path ex_job \<notin> dirs ex_world_job
   \<and> archive_path ex_job \<notin> denied ex_world_job
   \<and> fst (run_worker (ex_env 0) ex_job ex_world_job) = Inr ()
   \<and> files (snd (run_worker (ex_env 0) ex_job ex_world_job)) (archive_path ex_job) = Some ''{}''
   \<and> files (snd (run_worker (ex_env 0) ex_job ex_world_job)) ex_job = None"
proof -
  have h1: "worker_outcome (ex_env 0) (job_path ex_now 1761898500123456789) = Inr (ex_result 0)"
    by (simp add: worker_outcome_def ex_env_def)
  have h2: "returncode (ex_result 0) = 0"
    by (simp add: ex_result_def)
  note w = ex_world_job_facts
  from run_worker_success_archives [of "ex_env 0" ex_now 1761898500123456789 "ex_result 0"
      ex_world_job "''{}''"] h1 h2 w
  show ?thesis by (simp add: ex_job_path)
qed

text \<open>
  The claim as stated fails: with the job file locked by another process the worker
  ends with return code 0, \<^verbatim>\<open>run_worker\<close> returns normally, and the job file is
  still in the queue directory.
\<close>

lemma ex_world_locked_facts:
  "files ex_world_locked ex_job = Some ''{}''"
  "writable (runner_log (ex_env rc)) ex_world_locked"
  "can_mkdir ARCHIVE_SUCCESS_DIR ex_world_locked"
  "archive_path ex_job \<notin> dirs ex_world_locked"
  "archive_path ex_job \<notin> denied ex_world_locked"
  "ex_job \<in> denied ex_world_locked"
  by (simp_all add: ex_world_locked_def ex_world_job_def ex_world_def ex_job_def archive_path_def
      QUEUE_DIR_def ARCHIVE_SUCCESS_DIR_def child_def writable_def can_mkdir_def runner_log_def
      ex_env_def parent_def)

theorem run_worker_success_job_remains:
  "worker_outcome (ex_env 0) ex_job = Inr (ex_result 0)
   \<and> returncode (ex_result 0) = 0
   \<and> fst (run_worker (ex_env 0) ex_job ex_world_locked) = Inr ()
   \<and> files (snd (run_worker (ex_env 0) ex_job ex_world_locked)) ex_job = Some ''{}''"
proof -
  have h1: "worker_outcome (ex_env 0) (job_path ex_now 1761898500123456789) = Inr (ex_result 0)"
    by (simp add: worker_outcome_def ex_env_def)
  have h2: "returncode (ex_result 0) = 0"
    by (simp add: ex_result_def)
  note w = ex_world_locked_facts
  from run_worker_success_effect [of "ex_env 0" ex_now 1761898500123456789 "ex_result 0"
      ex_world_locked "''{}''"] h1 h2 w
  show ?thesis by (simp add: ex_job_path)
qed


subsection \<open>The payload writer\<close>

lemma downloads_facts [simp]:
  "downloads \<noteq> QUEUE_DIR" "QUEUE_DIR \<noteq> downloads"
  "parent QUEUE_DIR \<noteq> downloads"
  by (simp_all add: downloads_def QUEUE_DIR_def parent_def)

lemma job_path_facts [simp]:
  "job_path tm ns \<noteq> QUEUE_DIR" "job_path tm ns \<noteq> downloads"
  "parent (job_path tm ns) = QUEUE_DIR"
  "backup_path (job_path tm ns) \<noteq> job_path tm ns"
  "backup_path (job_path tm ns) \<noteq> QUEUE_DIR"
  "backup_path p \<noteq> downloads"
  "parent (backup_path p) = downloads"
  "child (backup_path (job_path tm ns)) n \<noteq> job_path tm ns"
  "job_path tm ns \<noteq> backup_path (job_path tm ns)"
  "job_path tm ns \<noteq> child (backup_path (job_path tm ns)) n"
  "QUEUE_DIR \<noteq> job_path tm ns" "downloads \<noteq> job_path tm ns"
  "QUEUE_DIR \<noteq> backup_path (job_path tm ns)"
  "downloads \<noteq> backup_path p"
  by (auto simp: job_path_def backup_path_def downloads_def QUEUE_DIR_def child_def parent_def)

lemma mkdir_parents_frame:
  assumes "mkdir_parents d w = (r, w')"
  shows "files w' = files w" "denied w' = denied w" "console w' = console w"
    "global_executor w' = global_executor w" "dirs w \<subseteq> dirs w'" "dirs w' \<subseteq> insert d (dirs w)"
  using assms by (auto simp: mkdir_parents_def split: if_splits)

lemma write_text_frame:
  assumes "write_text p s w = (r, w')"
  shows "dirs w' = dirs w" "denied w' = denied w" "console w' = console w"
    "global_executor w' = global_executor w" "q \<noteq> p \<Longrightarrow> files w' q = files w q"
  using assms by (auto simp: write_text_def split: if_splits)

lemma copy2_frame:
  assumes "copy2 src dst w = (r, w')"
  shows "dirs w' = dirs w" "denied w' = denied w" "console w' = console w"
    "global_executor w' = global_executor w"
    "q \<noteq> dst \<Longrightarrow> q \<noteq> child dst (name src) \<Longrightarrow> files w' q = files w q"
  using assms by (auto simp: copy2_def Let_def split: if_splits option.splits)

lemma write_temp_json_frame:
  assumes "write_temp_json e d w = (r, w')"
  shows "denied w' = denied w \<and> console w' = console w \<and> global_executor w' = global_executor w
       \<and> dirs w \<subseteq> dirs w' \<and> dirs w' \<subseteq> insert QUEUE_DIR (insert downloads (dirs w))
       \<and> (\<forall>q. name q \<noteq> job_filename (now e) (time_ns e) \<longrightarrow> files w' q = files w q)
       \<and> (\<forall>q. parent q = QUEUE_DIR \<longrightarrow> q \<noteq> job_path (now e) (time_ns e) \<longrightarrow> files w' q = files w q)"
proof -
  let ?p = "job_path (now e) (time_ns e)"
  let ?b = "child downloads (name ?p)"
  define P where "P v \<longleftrightarrow>
      denied v = denied w \<and> console v = console w \<and> global_executor v = global_executor w
       \<and> dirs w \<subseteq> dirs v \<and> dirs v \<subseteq> insert QUEUE_DIR (insert downloads (dirs w))
       \<and> (\<forall>q. q \<noteq> ?p \<longrightarrow> q \<noteq> ?b \<longrightarrow> q \<noteq> child ?b (name ?p) \<longrightarrow> files v q = files w q)"
    for v :: world
  have P0: "P w"
    by (auto simp: P_def)
  obtain r1 w1 where m1: "mkdir_parents QUEUE_DIR w = (r1, w1)"
    by (cases "mkdir_parents QUEUE_DIR w")
  have P1: "P w1"
    using mkdir_parents_frame [OF m1] by (auto simp: P_def)
  obtain jt where jt: "jt = (case json_dumps d of Inr t \<Rightarrow> t | Inl x \<Rightarrow> [])"
    by simp
  obtain r2 w2 where m2: "write_text ?p jt w1 = (r2, w2)"
    by (cases "write_text ?p jt w1")
  have P2: "P w2"
    using write_text_frame [OF m2] P1 by (auto simp: P_def)
  obtain r3 w3 where m3: "mkdir_parents downloads w2 = (r3, w3)"
    by (cases "mkdir_parents downloads w2")
  have P3: "P w3"
    using mkdir_parents_frame [OF m3] P2 by (auto simp: P_def)
  obtain r4 w4 where m4: "copy2 ?p ?b w3 = (r4, w4)"
    by (cases "copy2 ?p ?b w3")
  have P4: "P w4"
    using copy2_frame [OF m4] P3 by (auto simp: P_def)
  have "w' = w1 \<or> w' = w2 \<or> w' = w3 \<or> w' = w4"
    using assms m1 m2 m3 m4 jt
    by (auto simp: write_temp_json_def bind_io_def Let_def job_path_def split: sum.splits)
  with P1 P2 P3 P4 have P: "P w'"
    by auto
  have c: "files w' q = files w q" if "name q \<noteq> job_filename (now e) (time_ns e)" for q
  proof -
    from that have "q \<noteq> ?p" "q \<noteq> ?b" "q \<noteq> child ?b (name ?p)"
      by (auto simp: job_path_def)
    with P show ?thesis
      by (simp add: P_def)
  qed
  have d: "files w' q = files w q" if "parent q = QUEUE_DIR" "q \<noteq> ?p" for q
  proof -
    from that have "q \<noteq> ?b" "q \<noteq> child ?b (name ?p)"
      by (auto simp: job_path_def downloads_def QUEUE_DIR_def child_def parent_def)
    with that P show ?thesis
      by (simp add: P_def)
  qed
  from P c d show ?thesis
    by (simp add: P_def)
qed

lemma write_temp_json_steps:
  assumes q: "can_mkdir QUEUE_DIR w"
    and js: "json_dumps d = Inr t"
    and p1: "job_path (now e) (time_ns e) \<notin> dirs w"
    and p2: "job_path (now e) (time_ns e) \<notin> denied w"
  shows "\<exists>w2. write_temp_json e d w =
           bind_io (mkdir_parents downloads w2) (\<lambda>_ w3.
           bind_io (copy2 (job_path (now e) (time_ns e))
                      (backup_path (job_path (now e) (time_ns e))) w3) (\<lambda>_ w4.
           (Inr (job_path (now e) (time_ns e)), w4)))
         \<and> files w2 = (files w)(job_path (now e) (time_ns e) \<mapsto> t)
         \<and> dirs w2 = insert QUEUE_DIR (dirs w) \<and> denied w2 = denied w
         \<and> console w2 = console w \<and> global_executor w2 = global_executor w"
proof -
  let ?p = "job_path (now e) (time_ns e)"
  define w1 where "w1 = (if QUEUE_DIR \<in> dirs w then w else w\<lparr>dirs := insert QUEUE_DIR (dirs w)\<rparr>)"
  define w2 where "w2 = w1\<lparr>files := (files w1)(?p \<mapsto> t)\<rparr>"
  have s1: "mkdir_parents QUEUE_DIR w = (Inr (), w1)"
    using q by (auto simp: mkdir_parents_def can_mkdir_def w1_def)
  have f1: "files w1 = files w" "dirs w1 = insert QUEUE_DIR (dirs w)" "denied w1 = denied w"
    "console w1 = console w" "global_executor w1 = global_executor w"
    by (auto simp: w1_def)
  have s2: "write_text ?p t w1 = (Inr (), w2)"
    using p1 p2 by (simp add: write_text_def writable_def f1 w2_def)
  have "write_temp_json e d w =
           bind_io (mkdir_parents downloads w2) (\<lambda>_ w3.
           bind_io (copy2 ?p (backup_path ?p) w3) (\<lambda>_ w4. (Inr ?p, w4)))"
    unfolding write_temp_json_def Let_def job_path_def [symmetric] backup_path_def [symmetric]
    by (simp add: s1 js s2 bind_io_def)
  moreover have "files w2 = (files w)(?p \<mapsto> t)" "dirs w2 = insert QUEUE_DIR (dirs w)"
    "denied w2 = denied w" "console w2 = console w" "global_executor w2 = global_executor w"
    by (simp_all add: w2_def f1)
  ultimately show ?thesis by blast
qed

lemma write_temp_json_writes:
  assumes "can_mkdir QUEUE_DIR w" and "json_dumps d = Inr t"
    and "job_path (now e) (time_ns e) \<notin> dirs w"
    and "job_path (now e) (time_ns e) \<notin> denied w"
  shows "files (snd (write_temp_json e d w)) (job_path (now e) (time_ns e)) = Some t"
proof -
  let ?p = "job_path (now e) (time_ns e)"
  from write_temp_json_steps [OF assms] obtain w2 where
    eq: "write_temp_json e d w =
           bind_io (mkdir_parents downloads w2) (\<lambda>_ w3.
           bind_io (copy2 ?p (backup_path ?p) w3) (\<lambda>_ w4. (Inr ?p, w4)))"
    and f2: "files w2 = (files w)(?p \<mapsto> t)"
    by blast
  obtain r3 w3 where m3: "mkdir_parents downloads w2 = (r3, w3)"
    by (cases "mkdir_parents downloads w2")
  obtain r4 w4 where m4: "copy2 ?p (backup_path ?p) w3 = (r4, w4)"
    by (cases "copy2 ?p (backup_path ?p) w3")
  have a: "files w3 ?p = Some t"
    using mkdir_parents_frame(1) [OF m3] f2 by simp
  have b: "files w4 ?p = Some t"
    using copy2_frame(5) [OF m4, of ?p] a by simp
  show ?thesis
    using eq m3 m4 a b by (auto simp: bind_io_def split: sum.splits)
qed

lemma write_temp_json_ok:
  assumes "can_mkdir QUEUE_DIR w" and "json_dumps d = Inr t"
    and "job_path (now e) (time_ns e) \<notin> dirs w"
    and "job_path (now e) (time_ns e) \<notin> denied w"
    and d: "can_mkdir downloads w"
    and b1: "backup_path (job_path (now e) (time_ns e)) \<notin> dirs w"
    and b2: "backup_path (job_path (now e) (time_ns e)) \<notin> denied w"
  shows "fst (write_temp_json e d w) = Inr (job_path (now e) (time_ns e))"
proof -
  let ?p = "job_path (now e) (time_ns e)"
  let ?b = "backup_path ?p"
  from write_temp_json_steps [OF assms(1-4)] obtain w2 where
    eq: "write_temp_json e d w =
           bind_io (mkdir_parents downloads w2) (\<lambda>_ w3.
           bind_io (copy2 ?p ?b w3) (\<lambda>_ w4. (Inr ?p, w4)))"
    and f2: "files w2 = (files w)(?p \<mapsto> t)" "dirs w2 = insert QUEUE_DIR (dirs w)"
      "denied w2 = denied w"
    by blast
  define w3 where "w3 = (if downloads \<in> dirs w2 then w2 else w2\<lparr>dirs := insert downloads (dirs w2)\<rparr>)"
  have s3: "mkdir_parents downloads w2 = (Inr (), w3)"
    using d by (auto simp: mkdir_parents_def can_mkdir_def f2 w3_def)
  have f3: "files w3 ?p = Some t" "downloads \<in> dirs w3" "?b \<notin> dirs w3" "?b \<notin> denied w3"
    using b1 b2 by (auto simp: w3_def f2)
  have s4: "fst (copy2 ?p ?b w3) = Inr ()"
    by (simp add: copy2_def writable_def f3)
  show ?thesis
  proof (cases "copy2 ?p ?b w3")
    case (Pair r4 w4)
    with s3 s4 show ?thesis
      by (simp add: eq bind_io_def)
  qed
qed

lemma write_temp_json_backup_denied:
  assumes "can_mkdir QUEUE_DIR w" and "json_dumps d = Inr t"
    and "job_path (now e) (time_ns e) \<notin> dirs w"
    and "job_path (now e) (time_ns e) \<notin> denied w"
    and d1: "downloads \<notin> dirs w" and d2: "downloads \<in> denied w"
  shows "fst (write_temp_json e d w) = Inl (OSError ''cannot create directory'')"
proof -
  let ?p = "job_path (now e) (time_ns e)"
  from write_temp_json_steps [OF assms(1-4)] obtain w2 where
    eq: "write_temp_json e d w =
           bind_io (mkdir_parents downloads w2) (\<lambda>_ w3.
           bind_io (copy2 ?p (backup_path ?p) w3) (\<lambda>_ w4. (Inr ?p, w4)))"
    and f2: "dirs w2 = insert QUEUE_DIR (dirs w)" "denied w2 = denied w"
    by blast
  have "mkdir_parents downloads w2 = (Inl (OSError ''cannot create directory''), w2)"
    using d1 d2 by (simp add: mkdir_parents_def f2)
  then show ?thesis
    by (simp add: eq bind_io_def)
qed

lemma enqueue_worker_frame [simp]:
  "files (enqueue_worker p w) = files w" "dirs (enqueue_worker p w) = dirs w"
  "denied (enqueue_worker p w) = denied w"
  by (simp_all add: enqueue_worker_def ensure_worker_executor_def Let_def split: option.splits)

lemma json_members_ok:
  "(\<forall>kv\<in>set d. \<forall>x. snd kv \<noteq> PyDateTime x) \<Longrightarrow> \<exists>ts. json_members d = Inr ts"
proof (induction d)
  case Nil
  then show ?case by simp
next
  case (Cons kv d)
  obtain k v where kv: "kv = (k, v)"
    by (cases kv)
  from Cons.prems kv have "\<exists>t. json_value v = Inr t"
    by (cases v) auto
  moreover from Cons have "\<exists>ts. json_members d = Inr ts"
    by simp
  ultimately show ?case
    using kv by auto
qed

lemma json_dumps_ok:
  "(\<forall>kv\<in>set d. \<forall>x. snd kv \<noteq> PyDateTime x) \<Longrightarrow> json_dumps d = Inr (json_text d)"
  using json_members_ok [of d] by (auto simp: json_dumps_def json_text_def)

lemma ex_world_facts:
  "can_mkdir QUEUE_DIR ex_world" "can_mkdir downloads ex_world"
  "dirs ex_world = {[''C:'', ''Temp'']}" "denied ex_world = {}" "files ex_world q = None"
  "p \<notin> denied ex_world" "child d n \<noteq> [''C:'', ''Temp''] \<Longrightarrow> child d n \<notin> dirs ex_world"
  by (simp_all add: ex_world_def can_mkdir_def)

lemma ex_job_later_path: "job_path ex_now 1761898500123456790 = ex_job_later"
  by (simp add: job_path_def ex_job_later_def job_filename_def strftime_compact_def zpad_def
      ex_now_def dec.simps digit_char_def char_eval)

lemma ex_payload_ok: "json_dumps ex_payload = Inr (json_text ex_payload)"
  by (rule json_dumps_ok) (simp add: ex_payload_def)

text \<open>
  Claim C6. Two records that \<^verbatim>\<open>write_temp_json\<close> writes within the same wall-clock
  second (the same local time, the same whole second of \<^verbatim>\<open>time.time_ns()\<close>) at
  distinct nanosecond readings get distinct file names, hence distinct paths.
\<close>

lemma write_temp_json_path:
  "fst (write_temp_json e d w) = Inr p \<Longrightarrow> p = job_path (now e) (time_ns e)"
  by (auto simp: write_temp_json_def bind_io_def Let_def job_path_def
      split: prod.splits sum.splits)

lemma same_second_distinct:
  fixes a b :: int
  assumes "a div 1000000000 = b div 1000000000" and "a \<noteq> b"
  shows "a mod 1000000000 \<noteq> b mod 1000000000"
  using assms by (metis div_mult_mod_eq)

theorem filenames_distinct_in_same_second:
  assumes "fst (write_temp_json e1 d1 w1) = Inr p1"
    and "fst (write_temp_json e2 d2 w2) = Inr p2"
    and "now e1 = now e2"
    and "time_ns e1 div 1000000000 = time_ns e2 div 1000000000"
    and "time_ns e1 \<noteq> time_ns e2"
  shows "name p1 \<noteq> name p2 \<and> p1 \<noteq> p2"
proof -
  have p: "p1 = job_path (now e1) (time_ns e1)" "p2 = job_path (now e2) (time_ns e2)"
    using assms(1,2) by (simp_all add: write_temp_json_path)
  have "job_filename (now e1) (time_ns e1) \<noteq> job_filename (now e1) (time_ns e2)"
    using job_filename_inject same_second_distinct [OF assms(4,5)] by blast
  with p assms(3) show ?thesis
    by (auto simp: job_path_def)
qed

theorem filenames_distinct_in_same_second_witness:
  "fst (write_temp_json (ex_env 0) ex_payload ex_world) = Inr ex_job
   \<and> fst (write_temp_json ex_env_later ex_payload ex_world) = Inr ex_job_later
   \<and> now (ex_env 0) = now ex_env_later
   \<and> time_ns (ex_env 0) div 1000000000 = time_ns ex_env_later div 1000000000
   \<and> time_ns (ex_env 0) \<noteq> time_ns ex_env_later
   \<and> name ex_job \<noteq> name ex_job_later \<and> ex_job \<noteq> ex_job_later"
proof -
  have e: "now (ex_env 0) = ex_now" "time_ns (ex_env 0) = 1761898500123456789"
    "now ex_env_later = ex_now" "time_ns ex_env_later = 1761898500123456790"
    by (simp_all add: ex_env_def ex_env_later_def)
  have p: "ex_job \<noteq> [''C:'', ''Temp'']" "ex_job_later \<noteq> [''C:'', ''Temp'']"
    "backup_path ex_job \<noteq> [''C:'', ''Temp'']" "backup_path ex_job_later \<noteq> [''C:'', ''Temp'']"
    by (simp_all add: ex_job_def ex_job_later_def backup_path_def child_def QUEUE_DIR_def
        downloads_def)
  have h1: "fst (write_temp_json (ex_env 0) ex_payload ex_world) = Inr ex_job"
    using write_temp_json_ok [of ex_world ex_payload "json_text ex_payload" "ex_env 0"] p
    by (simp add: e ex_job_path ex_world_facts ex_payload_ok)
  have h2: "fst (write_temp_json ex_env_later ex_payload ex_world) = Inr ex_job_later"
    using write_temp_json_ok [of ex_world ex_payload "json_text ex_payload" ex_env_later] p
    by (simp add: e ex_job_later_path ex_world_facts ex_payload_ok)
  have h3: "now (ex_env 0) = now ex_env_later"
    by (simp add: e)
  have h4: "time_ns (ex_env 0) div 1000000000 = time_ns ex_env_later div 1000000000"
    by (simp add: e)
  have h5: "time_ns (ex_env 0) \<noteq> time_ns ex_env_later"
    by (simp add: e)
  from filenames_distinct_in_same_second [OF h1 h2 h3 h4 h5] h1 h2 h3 h4 h5
  show ?thesis by simp
qed

subsection \<open>The worker wrapper: a worker that cannot be started\<close>




subsection \<open>The event handler: items that are not mail\<close>

text \<open>
  Claim C10. For an item whose \<^verbatim>\<open>Class\<close> is not 43, \<^verbatim>\<open>OnItemAdd\<close> returns with
  the world as it was: no file written, nothing enqueued, nothing logged or printed,
  whatever the subject.
\<close>

theorem OnItemAdd_ignores_other_classes:
  assumes "item_Class it = Holds cls" and "cls \<noteq> PyInt 43"
  shows "OnItemAdd e it w = (Inr (), w)"
  using assms by (simp add: OnItemAdd_def OnItemAdd_try_def)

theorem OnItemAdd_ignores_other_classes_witness:
  "item_Class (ex_item\<lparr>item_Class := Holds (PyInt 53)\<rparr>) = Holds (PyInt 53)
   \<and> PyInt 53 \<noteq> PyInt 43
   \<and> OnItemAdd (ex_env 0) (ex_item\<lparr>item_Class := Holds (PyInt 53)\<rparr>) ex_world = (Inr (), ex_world)"
proof -
  have h1: "item_Class (ex_item\<lparr>item_Class := Holds (PyInt 53)\<rparr>) = Holds (PyInt 53)"
    by simp
  have h2: "PyInt 53 \<noteq> PyInt 43"
    by simp
  from OnItemAdd_ignores_other_classes [OF h1 h2] h1 h2 show ?thesis
    by simp
qed

subsection \<open>The event handler: the subject filter and the error boundary\<close>

lemma starts_with_iff: "starts_with k s \<longleftrightarrow> (\<exists>b. s = k @ b)"
  by (induction k s rule: starts_with.induct) auto

lemma py_in_iff: "py_in k s \<longleftrightarrow> (\<exists>a b. s = a @ k @ b)"
proof (induction s)
  case Nil
  then show ?case by simp
next
  case (Cons c cs)
  have "(\<exists>a b. c # cs = a @ k @ b) \<longleftrightarrow> (\<exists>b. c # cs = k @ b) \<or> (\<exists>a b. cs = a @ k @ b)"
  proof
    assume "\<exists>a b. c # cs = a @ k @ b"
    then obtain a b where ab: "c # cs = a @ k @ b" by blast
    show "(\<exists>b. c # cs = k @ b) \<or> (\<exists>a b. cs = a @ k @ b)"
    proof (cases a)
      case Nil
      with ab show ?thesis by auto
    next
      case (Cons x a')
      with ab have "cs = a' @ k @ b" by simp
      then show ?thesis by blast
    qed
  next
    assume "(\<exists>b. c # cs = k @ b) \<or> (\<exists>a b. cs = a @ k @ b)"
    then show "\<exists>a b. c # cs = a @ k @ b"
    proof
      assume "\<exists>b. c # cs = k @ b"
      then obtain b where "c # cs = [] @ k @ b" by auto
      then show ?thesis by blast
    next
      assume "\<exists>a b. cs = a @ k @ b"
      then obtain a b where "c # cs = (c # a) @ k @ b" by auto
      then show ?thesis by blast
    qed
  qed
  with Cons show ?case
    by (simp add: starts_with_iff)
qed

lemma subject_hit_str:
  "subject_hit (PyStr s) = Inr (\<exists>k\<in>set KEYWORDS. \<exists>a b. py_lower s = a @ k @ b)"
  by (cases "s = []") (simp_all add: subject_hit_def list_ex_iff py_in_iff)

lemma OnItemAdd_try_hit:
  assumes "item_Class it = Holds (PyInt 43)" and "item_Subject it = Holds (PyStr s)"
    and "\<exists>k\<in>set KEYWORDS. \<exists>a b. py_lower s = a @ k @ b"
    and "build_payload it (PyStr s) = Inr pl"
  shows "OnItemAdd_try e it w =
           bind_io (write_temp_json e pl w) (\<lambda>json_path w1.
             (Inr (), enqueue_worker json_path
                (print_line (''[listener] Triggered for: '' @ s @ '' -> '' @ path_str json_path) w1)))"
  using assms by (simp add: OnItemAdd_try_def subject_hit_str Let_def)


lemma OnItemAdd_try_shape:
  "(\<exists>r. OnItemAdd_try e it w = (r, w)) \<or>
   (\<exists>pl subj. OnItemAdd_try e it w =
      bind_io (write_temp_json e pl w) (\<lambda>json_path w1.
        (Inr (), enqueue_worker json_path
           (print_line (''[listener] Triggered for: '' @ py_str subj @ '' -> '' @
              path_str json_path) w1))))"
  by (auto simp: OnItemAdd_try_def Let_def split: sum.splits)

lemma OnItemAdd_try_frame:
  assumes "OnItemAdd_try e it w = (r, w')"
  shows "denied w' = denied w
       \<and> dirs w \<subseteq> dirs w' \<and> dirs w' \<subseteq> insert QUEUE_DIR (insert downloads (dirs w))
       \<and> (\<forall>q. name q \<noteq> job_filename (now e) (time_ns e) \<longrightarrow> files w' q = files w q)
       \<and> (\<forall>q. parent q = QUEUE_DIR \<longrightarrow> q \<noteq> job_path (now e) (time_ns e) \<longrightarrow>
             files w' q = files w q)"
proof -
  from OnItemAdd_try_shape [of e it w] show ?thesis
  proof
    assume "\<exists>r. OnItemAdd_try e it w = (r, w)"
    with assms show ?thesis by auto
  next
    assume "\<exists>pl subj. OnItemAdd_try e it w =
      bind_io (write_temp_json e pl w) (\<lambda>json_path w1.
        (Inr (), enqueue_worker json_path
           (print_line (''[listener] Triggered for: '' @ py_str subj @ '' -> '' @
              path_str json_path) w1)))"
    then obtain pl subj where eq: "OnItemAdd_try e it w =
      bind_io (write_temp_json e pl w) (\<lambda>json_path w1.
        (Inr (), enqueue_worker json_path
           (print_line (''[listener] Triggered for: '' @ py_str subj @ '' -> '' @
              path_str json_path) w1)))"
      by blast
    obtain r0 w0 where wt: "write_temp_json e pl w = (r0, w0)"
      by (cases "write_temp_json e pl w")
    note f = write_temp_json_frame [OF wt]
    have "files w' = files w0 \<and> dirs w' = dirs w0 \<and> denied w' = denied w0"
      using assms eq wt by (cases r0) (auto simp: bind_io_def)
    with f show ?thesis by simp
  qed
qed

lemma error_log_facts [simp]:
  "error_log e \<noteq> QUEUE_DIR" "error_log e \<noteq> downloads"
  "name (error_log e) \<noteq> job_filename tm ns" "parent (error_log e) = tempdir e"
  using job_filename_not_log(2) [of tm ns]
  by (auto simp: error_log_def child_def QUEUE_DIR_def downloads_def name_def parent_def)

text \<open>
  Claim C8, as amended. Provided the error log can be appended to, \<^verbatim>\<open>OnItemAdd\<close>
  returns normally for every item, and when the \<^verbatim>\<open>try\<close> block raised an exception
  \<open>x\<close>, one line with the text of \<open>x\<close> has been appended to the error log. (All
  exceptions of the model derive from \<^verbatim>\<open>Exception\<close>.)
\<close>

theorem OnItemAdd_exceptions_logged:
  assumes "writable (error_log e) w"
  shows "fst (OnItemAdd e it w) = Inr ()
       \<and> (\<forall>x. fst (OnItemAdd_try e it w) = Inl x \<longrightarrow>
            files (snd (OnItemAdd e it w)) (error_log e)
            = Some ((case files w (error_log e) of None \<Rightarrow> [] | Some t \<Rightarrow> t) @
                    ctime e @ '' OnItemAdd error: '' @ exn_str x @ [CHR 0x0A]))"
proof -
  obtain r w1 where t: "OnItemAdd_try e it w = (r, w1)"
    by (cases "OnItemAdd_try e it w")
  note f = OnItemAdd_try_frame [OF t]
  have wr: "writable (error_log e) w1"
    using assms f by (auto simp: writable_def)
  have fl: "files w1 (error_log e) = files w (error_log e)"
    using f by simp
  show ?thesis
  proof (cases r)
    case (Inl x)
    with t wr fl show ?thesis
      by (auto simp: OnItemAdd_def append_text_def split: option.splits)
  next
    case (Inr u)
    with t show ?thesis
      by (simp add: OnItemAdd_def)
  qed
qed

lemma ex_subject_lower:
  "py_lower ''ESKER VENDOR EMAIL - batch 12'' = ''esker vendor email - batch 12''"
  by (simp add: py_lower_def lower_char_def char_eval)

lemma ex_subject_hit:
  "\<exists>k\<in>set KEYWORDS. \<exists>a b. py_lower ''ESKER VENDOR EMAIL - batch 12'' = a @ k @ b"
proof -
  have "''esker vendor email - batch 12'' = [] @ ''esker vendor email'' @ '' - batch 12''"
    by simp
  then show ?thesis
    unfolding ex_subject_lower KEYWORDS_def by (metis list.set_intros(1))
qed

lemma ex_item_facts:
  "item_Class ex_item = Holds (PyInt 43)"
  "item_Subject ex_item = Holds (PyStr ''ESKER VENDOR EMAIL - batch 12'')"
  "build_payload ex_item (PyStr ''ESKER VENDOR EMAIL - batch 12'') = Inr ex_payload"
  by (simp_all add: ex_item_def build_payload_def recv_str_def strftime_iso_def zpad_def ex_now_def
      dec.simps digit_char_def char_eval ex_payload_def)

lemma ex_item_broken_facts:
  "item_Class ex_item_broken = Holds (PyInt 43)"
  "item_Subject ex_item_broken = Holds (PyStr ''ESKER VENDOR EMAIL - batch 12'')"
  "build_payload ex_item_broken subj = Inl (ComError ''The RPC server is unavailable'')"
  by (simp_all add: ex_item_broken_def ex_item_def build_payload_def)

lemma ex_item_broken_try:
  "OnItemAdd_try e ex_item_broken w = (Inl (ComError ''The RPC server is unavailable''), w)"
  using ex_subject_hit
  by (simp add: OnItemAdd_try_def ex_item_broken_facts subject_hit_str)

theorem OnItemAdd_exceptions_logged_witness:
  "writable (error_log (ex_env 0)) ex_world
   \<and> fst (OnItemAdd_try (ex_env 0) ex_item_broken ex_world)
     = Inl (ComError ''The RPC server is unavailable'')
   \<and> fst (OnItemAdd (ex_env 0) ex_item_broken ex_world) = Inr ()
   \<and> files (snd (OnItemAdd (ex_env 0) ex_item_broken ex_world)) (error_log (ex_env 0))
     = Some (''Fri Oct 31 08:15:00 2025 OnItemAdd error: The RPC server is unavailable'' @
             [CHR 0x0A])"
proof -
  have h: "writable (error_log (ex_env 0)) ex_world"
    by (simp add: writable_def error_log_def ex_env_def ex_world_def child_def parent_def)
  have t: "fst (OnItemAdd_try (ex_env 0) ex_item_broken ex_world)
     = Inl (ComError ''The RPC server is unavailable'')"
    by (simp add: ex_item_broken_try)
  have l: "files ex_world (error_log (ex_env 0)) = None"
    "ctime (ex_env 0) = ''Fri Oct 31 08:15:00 2025''"
    by (simp_all add: ex_world_def ex_env_def)
  from OnItemAdd_exceptions_logged [OF h, of ex_item_broken] h t l
  show ?thesis by simp
qed

text \<open>
  The claim as stated fails: when the error log cannot be opened, the exception of the
  handler's own append leaves \<^verbatim>\<open>OnItemAdd\<close>, and the first exception is not
  logged.
\<close>

theorem OnItemAdd_error_log_unwritable:
  "fst (OnItemAdd_try (ex_env 0) ex_item_broken ex_world_noerrlog)
     = Inl (ComError ''The RPC server is unavailable'')
   \<and> fst (OnItemAdd (ex_env 0) ex_item_broken ex_world_noerrlog)
     = Inl (OSError ''cannot open file for appending'')
   \<and> files (snd (OnItemAdd (ex_env 0) ex_item_broken ex_world_noerrlog)) (error_log (ex_env 0))
     = None"
  by (simp add: OnItemAdd_def ex_item_broken_try append_text_def writable_def error_log_def
      ex_env_def ex_world_noerrlog_def ex_world_def child_def)

lemma build_payload_shape:
  assumes "build_payload it subj = Inr pl"
  shows "\<exists>sender body recv eid.
           getattr_default (item_SenderEmailAddress it) (PyStr []) = Inr sender
         \<and> getattr_default (item_Body it) (PyStr []) = Inr body
         \<and> getattr (item_ReceivedTime it) = Inr recv
         \<and> getattr_default (item_EntryID it) (PyStr []) = Inr eid
         \<and> pl = [(''subject'', subj), (''sender_address'', sender),
                 (''received_utc'', PyStr (recv_str recv)), (''body'', body),
                 (''entry_id'', eid)]"
  using assms by (auto simp: build_payload_def split: sum.splits)


lemma OnItemAdd_files:
  "q \<noteq> error_log e \<Longrightarrow>
   files (snd (OnItemAdd e it w)) q = files (snd (OnItemAdd_try e it w)) q"
  by (cases "OnItemAdd_try e it w")
     (auto simp: OnItemAdd_def append_text_def split: sum.splits)

lemma bind_enqueue_files:
  "files (snd (bind_io m (\<lambda>p w1. (Inr (), enqueue_worker p (print_line (g p) w1))))) = files (snd m)"
  by (cases m) (auto simp: bind_io_def split: sum.splits)


lemma ex_env_facts:
  "now (ex_env rc) = ex_now" "time_ns (ex_env rc) = 1761898500123456789"
  "ctime (ex_env rc) = ''Fri Oct 31 08:15:00 2025''" "tempdir (ex_env rc) = [''C:'', ''Temp'']"
  by (simp_all add: ex_env_def)

lemma ex_path_facts:
  "ex_job \<noteq> [''C:'', ''Temp'']" "backup_path ex_job \<noteq> [''C:'', ''Temp'']"
  "ex_job \<noteq> QUEUE_DIR" "ex_job \<noteq> downloads"
  "error_log (ex_env rc) = [''C:'', ''Temp'', ''esker_listener_errors.log'']"
  "error_log (ex_env rc) \<noteq> ex_job"
  by (simp_all add: ex_job_def backup_path_def child_def QUEUE_DIR_def downloads_def
      error_log_def ex_env_def)




text \<open>
  Claim C7 at a failing input: the backup directory cannot be created. The job file has
  been written to the queue directory, yet \<^verbatim>\<open>write_temp_json\<close> raises instead of
  returning the path; \<^verbatim>\<open>OnItemAdd\<close> logs the error and the job is never handed to
  the executor.
\<close>

theorem backup_failure_fails_write:
  "fst (write_temp_json (ex_env 0) ex_payload ex_world_nobackup)
     = Inl (OSError ''cannot create directory'')
   \<and> files (snd (write_temp_json (ex_env 0) ex_payload ex_world_nobackup)) ex_job
     = Some (json_text ex_payload)
   \<and> fst (OnItemAdd (ex_env 0) ex_item ex_world_nobackup) = Inr ()
   \<and> files (snd (OnItemAdd (ex_env 0) ex_item ex_world_nobackup)) ex_job
     = Some (json_text ex_payload)
   \<and> global_executor (snd (OnItemAdd (ex_env 0) ex_item ex_world_nobackup)) = None"
proof -
  let ?w = ex_world_nobackup
  have p: "job_path (now (ex_env 0)) (time_ns (ex_env 0)) = ex_job"
    by (simp add: ex_env_facts ex_job_path)
  have w: "can_mkdir QUEUE_DIR ?w" "ex_job \<notin> dirs ?w" "ex_job \<notin> denied ?w"
    "downloads \<notin> dirs ?w" "downloads \<in> denied ?w" "global_executor ?w = None"
    "[''C:'', ''Temp''] \<in> dirs ?w"
    "[''C:'', ''Temp'', ''esker_listener_errors.log''] \<notin> denied ?w"
    by (simp_all add: ex_world_nobackup_def ex_world_def can_mkdir_def ex_path_facts)
      (simp_all add: downloads_def QUEUE_DIR_def)
  have a: "fst (write_temp_json (ex_env 0) ex_payload ?w) = Inl (OSError ''cannot create directory'')"
    using write_temp_json_backup_denied [of ?w ex_payload "json_text ex_payload" "ex_env 0"] w
    by (simp add: p ex_payload_ok)
  have b: "files (snd (write_temp_json (ex_env 0) ex_payload ?w)) ex_job = Some (json_text ex_payload)"
    using write_temp_json_writes [of ?w ex_payload "json_text ex_payload" "ex_env 0"] w
    by (simp add: p ex_payload_ok)
  obtain r0 w0 where wt: "write_temp_json (ex_env 0) ex_payload ?w = (r0, w0)"
    by (cases "write_temp_json (ex_env 0) ex_payload ?w")
  note f = write_temp_json_frame [OF wt]
  from a wt have r0: "r0 = Inl (OSError ''cannot create directory'')"
    by simp
  have t: "OnItemAdd_try (ex_env 0) ex_item ?w = (Inl (OSError ''cannot create directory''), w0)"
    unfolding OnItemAdd_try_hit [OF ex_item_facts(1,2) ex_subject_hit ex_item_facts(3)]
    by (simp add: wt r0 bind_io_def)
  have wr0: "writable (error_log (ex_env 0)) ?w"
    by (simp add: writable_def ex_path_facts ex_world_nobackup_def ex_world_def parent_def
        downloads_def)
  have wr: "writable (error_log (ex_env 0)) w0"
    using wr0 f by (auto simp: writable_def)
  have c: "fst (OnItemAdd (ex_env 0) ex_item ?w) = Inr ()"
    "global_executor (snd (OnItemAdd (ex_env 0) ex_item ?w)) = None"
    using wr f w by (simp_all add: OnItemAdd_def t append_text_def)
  have d: "files (snd (OnItemAdd (ex_env 0) ex_item ?w)) ex_job = Some (json_text ex_payload)"
    using b wt by (simp add: OnItemAdd_files ex_path_facts [symmetric] t)
  from a b c d show ?thesis by simp
qed

subsection \<open>The event handler: the job record\<close>


lemma is_digit_digit_char: "d < 10 \<Longrightarrow> is_digit (digit_char d)"
  by (simp add: is_digit_def digit_char_def)

lemma dec_digits: "list_all is_digit (dec n)"
proof (induction n rule: dec.induct)
  case (1 n)
  show ?case
  proof (cases "n < 10")
    case True
    then show ?thesis
      by (simp add: dec.simps [of n] is_digit_digit_char)
  next
    case False
    with 1 show ?thesis
      by (simp add: dec.simps [of n] is_digit_digit_char)
  qed
qed

lemma length_dec: "n < 10 ^ k \<Longrightarrow> 0 < k \<Longrightarrow> length (dec n) \<le> k"
proof (induction k arbitrary: n)
  case 0
  then show ?case by simp
next
  case (Suc k)
  show ?case
  proof (cases "n < 10")
    case True
    then show ?thesis
      by (simp add: dec.simps [of n])
  next
    case False
    then have k: "0 < k"
      using Suc.prems by (cases k) auto
    from Suc.prems have "n div 10 < 10 ^ k"
      by (simp add: less_mult_imp_div_less mult.commute)
    from Suc.IH [OF this k] False show ?thesis
      by (simp add: dec.simps [of n])
  qed
qed

lemma zpad_digits: "list_all is_digit (zpad w n)"
proof -
  have "list_all is_digit (replicate k CHR ''0'')" for k
    by (induction k) (simp_all add: is_digit_def)
  then show ?thesis
    by (simp add: zpad_def dec_digits)
qed

lemma length_zpad: "n < 10 ^ w \<Longrightarrow> 0 < w \<Longrightarrow> length (zpad w n) = w"
  using length_dec [of n w] by (simp add: zpad_def)

lemma iso8601_z_shape:
  assumes "length y = 4" "length mo = 2" "length dd = 2" "length h = 2" "length mi = 2"
    "length s = 2"
    and "list_all is_digit y" "list_all is_digit mo" "list_all is_digit dd"
    "list_all is_digit h" "list_all is_digit mi" "list_all is_digit s"
  shows "iso8601_z (y @ ''-'' @ mo @ ''-'' @ dd @ ''T'' @ h @ '':'' @ mi @ '':'' @ s @ ''Z'')"
  using assms by (simp add: iso8601_z_def nth_append)

lemma strftime_iso_shape: "valid_datetime d \<Longrightarrow> iso8601_z (strftime_iso d)"
  unfolding strftime_iso_def
  by (rule iso8601_z_shape) (simp_all add: valid_datetime_def length_zpad zpad_digits)

lemma write_temp_json_written:
  assumes wt: "write_temp_json e d w = (r, w')"
    and ch: "files w' q \<noteq> files w q" and par: "parent q = QUEUE_DIR"
  shows "q = job_path (now e) (time_ns e) \<and> (\<exists>t. json_dumps d = Inr t \<and> files w' q = Some t)"
proof -
  let ?p = "job_path (now e) (time_ns e)"
  let ?b = "backup_path ?p"
  note f = write_temp_json_frame [OF wt]
  from f ch par have q: "q = ?p"
    by blast
  obtain r1 w1 where m1: "mkdir_parents QUEUE_DIR w = (r1, w1)"
    by (cases "mkdir_parents QUEUE_DIR w")
  note f1 = mkdir_parents_frame [OF m1]
  show ?thesis
  proof (cases "json_dumps d")
    case (Inl x)
    with wt m1 have "w' = w1"
      by (cases r1) (auto simp: write_temp_json_def bind_io_def Let_def)
    with f1 ch show ?thesis by simp
  next
    case (Inr t)
    obtain r2 w2 where m2: "write_text ?p t w1 = (r2, w2)"
      by (cases "write_text ?p t w1")
    obtain r3 w3 where m3: "mkdir_parents downloads w2 = (r3, w3)"
      by (cases "mkdir_parents downloads w2")
    obtain r4 w4 where m4: "copy2 ?p ?b w3 = (r4, w4)"
      by (cases "copy2 ?p ?b w3")
    have u: "w2 = w1" if "r2 = Inl x" for x
      using m2 that by (auto simp: write_text_def split: if_splits)
    have c: "w' = w1 \<or> (r2 = Inr () \<and> (w' = w2 \<or> w' = w3 \<or> w' = w4))"
      using wt m1 m2 m3 m4 Inr u
      by (auto simp: write_temp_json_def bind_io_def Let_def job_path_def backup_path_def
          split: sum.splits)
    have e3: "files w3 = files w2"
      using mkdir_parents_frame(1) [OF m3] .
    have e4: "files w4 ?p = files w3 ?p"
      using copy2_frame(5) [OF m4, of ?p] by simp
    from c show ?thesis
    proof
      assume "w' = w1"
      with f1 ch show ?thesis by simp
    next
      assume a: "r2 = Inr () \<and> (w' = w2 \<or> w' = w3 \<or> w' = w4)"
      with m2 have "files w2 ?p = Some t"
        by (auto simp: write_text_def split: if_splits)
      with a e3 e4 have "files w' ?p = Some t"
        by auto
      with q Inr show ?thesis by simp
    qed
  qed
qed

lemma subject_hit_true:
  assumes "subject_hit subj = Inr True"
  shows "\<exists>s. subj = PyStr s \<and> s \<noteq> [] \<and> (\<exists>k\<in>set KEYWORDS. \<exists>a b. py_lower s = a @ k @ b)"
proof (cases subj)
  case (PyStr s)
  with assms have h: "\<exists>k\<in>set KEYWORDS. \<exists>a b. py_lower s = a @ k @ b"
    by (simp add: subject_hit_str)
  then have "s \<noteq> []"
    by (auto simp: KEYWORDS_def py_lower_def)
  with PyStr h show ?thesis by simp
next
  case PyNone
  with assms show ?thesis
    by (simp add: subject_hit_def KEYWORDS_def py_lower_def)
next
  case (PyInt i)
  with assms show ?thesis
    by (cases "i = 0") (simp_all add: subject_hit_def KEYWORDS_def py_lower_def)
next
  case (PyDateTime d)
  with assms show ?thesis
    by (simp add: subject_hit_def)
qed

lemma getattr_default_str:
  "getattr_default a (PyStr []) = Inr (PyStr s) \<Longrightarrow> s \<noteq> [] \<Longrightarrow> a = Holds (PyStr s)"
  by (cases a) (auto split: if_splits)

lemma getattr_default_is_str:
  "getattr_default a (PyStr []) = Inr v \<Longrightarrow> is_str v = str_attr a"
  by (cases a) (auto simp: is_str_def str_attr_def split: if_splits)

lemma OnItemAdd_try_cases:
  "(\<exists>r. OnItemAdd_try e it w = (r, w)) \<or>
   (\<exists>s pl. item_Subject it = Holds (PyStr s) \<and> build_payload it (PyStr s) = Inr pl \<and>
      OnItemAdd_try e it w =
        bind_io (write_temp_json e pl w) (\<lambda>json_path w1.
          (Inr (), enqueue_worker json_path
             (print_line (''[listener] Triggered for: '' @ s @ '' -> '' @
                path_str json_path) w1))))"
proof (cases "getattr_default (item_Class it) PyNone")
  case (Inl x)
  then show ?thesis by (simp add: OnItemAdd_try_def)
next
  case (Inr cls) note c = this
  show ?thesis
  proof (cases "cls = PyInt 43")
    case False
    with c show ?thesis by (simp add: OnItemAdd_try_def)
  next
    case True note c43 = this
    show ?thesis
    proof (cases "getattr_default (item_Subject it) (PyStr [])")
      case (Inl x)
      with c c43 show ?thesis by (simp add: OnItemAdd_try_def)
    next
      case (Inr subj) note sj = this
      show ?thesis
      proof (cases "subject_hit subj")
        case (Inl x)
        with c c43 sj show ?thesis by (simp add: OnItemAdd_try_def)
      next
        case (Inr hit) note h = this
        show ?thesis
        proof (cases hit)
          case False
          with c c43 sj h show ?thesis by (simp add: OnItemAdd_try_def)
        next
          case True
          with h subject_hit_true [of subj] obtain s where
            s: "subj = PyStr s" "s \<noteq> []"
            by auto
          from sj s have a: "item_Subject it = Holds (PyStr s)"
            by (simp add: getattr_default_str)
          show ?thesis
          proof (cases "build_payload it subj")
            case (Inl x)
            with c c43 sj h True show ?thesis by (simp add: OnItemAdd_try_def)
          next
            case (Inr pl)
            with c c43 sj h True s a show ?thesis
              by (simp add: OnItemAdd_try_def Let_def)
          qed
        qed
      qed
    qed
  qed
qed

lemma recv_str_cases:
  "recv_str recv = (case recv of PyDateTime d \<Rightarrow> strftime_iso d | _ \<Rightarrow> py_str recv)"
  by (cases recv) (simp_all add: recv_str_def)

text \<open>
  Claim C9, as amended. Every file of the queue directory that \<^verbatim>\<open>OnItemAdd\<close> changes
  (its own error log apart) is the job file of this run and holds the encoded record
  with exactly the five members \<open>subject\<close>, \<open>sender_address\<close>, \<open>received_utc\<close>,
  \<open>body\<close>, \<open>entry_id\<close>, in this order. \<open>subject\<close> and \<open>received_utc\<close> are strings;
  \<open>sender_address\<close>, \<open>body\<close> and \<open>entry_id\<close> are what \<^verbatim>\<open>getattr\<close> with the default
  \<^verbatim>\<open>""\<close> gives for the item, strings exactly when the item's attributes are.
  \<open>received_utc\<close> is the text \<^verbatim>\<open>%Y-%m-%dT%H:%M:%SZ\<close> of \<^verbatim>\<open>ReceivedTime\<close> when that is a
  \<^verbatim>\<open>datetime\<close>, of the ISO-8601 shape with the suffix \<open>Z\<close>; for any other value it is
  \<^verbatim>\<open>str(ReceivedTime)\<close>.
\<close>

theorem job_record_schema:
  assumes par: "parent q = QUEUE_DIR" and nl: "q \<noteq> error_log e"
    and ch: "files (snd (OnItemAdd e it w)) q \<noteq> files w q"
  shows "\<exists>s sender body recv eid t.
           q = job_path (now e) (time_ns e)
         \<and> item_Subject it = Holds (PyStr s)
         \<and> getattr_default (item_SenderEmailAddress it) (PyStr []) = Inr sender
         \<and> getattr_default (item_Body it) (PyStr []) = Inr body
         \<and> getattr (item_ReceivedTime it) = Inr recv
         \<and> getattr_default (item_EntryID it) (PyStr []) = Inr eid
         \<and> json_dumps [(''subject'', PyStr s), (''sender_address'', sender),
                        (''received_utc'', PyStr (recv_str recv)), (''body'', body),
                        (''entry_id'', eid)] = Inr t
         \<and> files (snd (OnItemAdd e it w)) q = Some t
         \<and> is_str sender = str_attr (item_SenderEmailAddress it)
         \<and> is_str body = str_attr (item_Body it)
         \<and> is_str eid = str_attr (item_EntryID it)
         \<and> recv_str recv = (case recv of PyDateTime d \<Rightarrow> strftime_iso d | _ \<Rightarrow> py_str recv)
         \<and> (\<forall>d. recv = PyDateTime d \<longrightarrow> valid_datetime d \<longrightarrow> iso8601_z (recv_str recv))"
proof -
  from ch nl have ch': "files (snd (OnItemAdd_try e it w)) q \<noteq> files w q"
    by (simp add: OnItemAdd_files)
  from OnItemAdd_try_cases [of e it w] show ?thesis
  proof
    assume "\<exists>r. OnItemAdd_try e it w = (r, w)"
    with ch' show ?thesis by auto
  next
    assume "\<exists>s pl. item_Subject it = Holds (PyStr s) \<and> build_payload it (PyStr s) = Inr pl \<and>
      OnItemAdd_try e it w =
        bind_io (write_temp_json e pl w) (\<lambda>json_path w1.
          (Inr (), enqueue_worker json_path
             (print_line (''[listener] Triggered for: '' @ s @ '' -> '' @
                path_str json_path) w1)))"
    then obtain s pl where sb: "item_Subject it = Holds (PyStr s)"
      and bp: "build_payload it (PyStr s) = Inr pl"
      and eq: "OnItemAdd_try e it w =
        bind_io (write_temp_json e pl w) (\<lambda>json_path w1.
          (Inr (), enqueue_worker json_path
             (print_line (''[listener] Triggered for: '' @ s @ '' -> '' @
                path_str json_path) w1)))"
      by blast
    have tf: "files (snd (OnItemAdd_try e it w)) = files (snd (write_temp_json e pl w))"
      unfolding eq by (rule bind_enqueue_files)
    obtain r0 w0 where wt: "write_temp_json e pl w = (r0, w0)"
      by (cases "write_temp_json e pl w")
    from ch' tf wt have "files w0 q \<noteq> files w q"
      by simp
    from write_temp_json_written [OF wt this par] obtain t where
      q: "q = job_path (now e) (time_ns e)" and js: "json_dumps pl = Inr t"
      and ft: "files w0 q = Some t"
      by blast
    from build_payload_shape [OF bp] obtain sender body recv eid where
      g: "getattr_default (item_SenderEmailAddress it) (PyStr []) = Inr sender"
        "getattr_default (item_Body it) (PyStr []) = Inr body"
        "getattr (item_ReceivedTime it) = Inr recv"
        "getattr_default (item_EntryID it) (PyStr []) = Inr eid"
      and pl: "pl = [(''subject'', PyStr s), (''sender_address'', sender),
                 (''received_utc'', PyStr (recv_str recv)), (''body'', body),
                 (''entry_id'', eid)]"
      by blast
    have fq: "files (snd (OnItemAdd e it w)) q = Some t"
      using nl ft wt by (simp add: OnItemAdd_files tf)
    have st: "is_str sender = str_attr (item_SenderEmailAddress it)"
      "is_str body = str_attr (item_Body it)" "is_str eid = str_attr (item_EntryID it)"
      using g by (simp_all add: getattr_default_is_str)
    have iso: "\<forall>d. recv = PyDateTime d \<longrightarrow> valid_datetime d \<longrightarrow> iso8601_z (recv_str recv)"
      by (simp add: recv_str_def strftime_iso_shape)
    from q sb g js [unfolded pl] fq st recv_str_cases [of recv] iso show ?thesis
      by blast
  qed
qed

lemma ex_item_job_file:
  assumes "item_Class it = Holds (PyInt 43)"
    and "item_Subject it = Holds (PyStr ''ESKER VENDOR EMAIL - batch 12'')"
    and "build_payload it (PyStr ''ESKER VENDOR EMAIL - batch 12'') = Inr pl"
    and "json_dumps pl = Inr t"
  shows "fst (OnItemAdd (ex_env 0) it ex_world) = Inr ()"
    and "files (snd (OnItemAdd (ex_env 0) it ex_world)) ex_job = Some t"
proof -
  have p: "job_path (now (ex_env 0)) (time_ns (ex_env 0)) = ex_job"
    by (simp add: ex_env_facts ex_job_path)
  have h: "ex_job \<notin> dirs ex_world" "ex_job \<notin> denied ex_world"
    "backup_path ex_job \<notin> dirs ex_world" "backup_path ex_job \<notin> denied ex_world"
    by (simp_all add: ex_world_facts ex_path_facts)
  note eq = OnItemAdd_try_hit [OF assms(1,2) ex_subject_hit assms(3), of "ex_env 0" ex_world]
  have tf: "files (snd (OnItemAdd_try (ex_env 0) it ex_world))
            = files (snd (write_temp_json (ex_env 0) pl ex_world))"
    unfolding eq by (rule bind_enqueue_files)
  have a: "files (snd (write_temp_json (ex_env 0) pl ex_world)) ex_job = Some t"
    using write_temp_json_writes [of ex_world pl t "ex_env 0"] assms(4) h ex_world_facts(1)
    by (simp add: p)
  have b: "fst (write_temp_json (ex_env 0) pl ex_world) = Inr ex_job"
    using write_temp_json_ok [of ex_world pl t "ex_env 0"] assms(4) h ex_world_facts(1,2)
    by (simp add: p)
  show "files (snd (OnItemAdd (ex_env 0) it ex_world)) ex_job = Some t"
    using a by (simp add: OnItemAdd_files ex_path_facts [symmetric] tf)
  obtain w0 where wt: "write_temp_json (ex_env 0) pl ex_world = (Inr ex_job, w0)"
    using b by (cases "write_temp_json (ex_env 0) pl ex_world") simp
  show "fst (OnItemAdd (ex_env 0) it ex_world) = Inr ()"
    by (simp add: OnItemAdd_def eq wt bind_io_def)
qed

lemma ex_now_iso: "strftime_iso ex_now = ''2025-10-31T08:15:00Z''"
  by (simp add: strftime_iso_def zpad_def ex_now_def dec.simps digit_char_def char_eval)

theorem job_record_schema_witness:
  "parent ex_job = QUEUE_DIR
   \<and> ex_job \<noteq> error_log (ex_env 0)
   \<and> files (snd (OnItemAdd (ex_env 0) ex_item ex_world)) ex_job \<noteq> files ex_world ex_job
   \<and> ex_job = job_path (now (ex_env 0)) (time_ns (ex_env 0))
   \<and> json_dumps ex_payload = Inr (json_text ex_payload)
   \<and> files (snd (OnItemAdd (ex_env 0) ex_item ex_world)) ex_job = Some (json_text ex_payload)
   \<and> valid_datetime ex_now
   \<and> iso8601_z ''2025-10-31T08:15:00Z''"
proof -
  have h1: "parent ex_job = QUEUE_DIR"
    by (simp add: ex_job_def)
  have h2: "ex_job \<noteq> error_log (ex_env 0)"
    using ex_path_facts(6) [of 0] by simp
  have h3: "files (snd (OnItemAdd (ex_env 0) ex_item ex_world)) ex_job \<noteq> files ex_world ex_job"
    by (simp add: ex_item_job_file(2) [OF ex_item_facts ex_payload_ok] ex_world_facts)
  have v: "valid_datetime ex_now"
    by (simp add: valid_datetime_def ex_now_def)
  from job_record_schema [OF h1 h2 h3] obtain s sender body recv eid t where
    q: "ex_job = job_path (now (ex_env 0)) (time_ns (ex_env 0))"
    and sb: "item_Subject ex_item = Holds (PyStr s)"
    and g: "getattr_default (item_SenderEmailAddress ex_item) (PyStr []) = Inr sender"
      "getattr_default (item_Body ex_item) (PyStr []) = Inr body"
      "getattr (item_ReceivedTime ex_item) = Inr recv"
      "getattr_default (item_EntryID ex_item) (PyStr []) = Inr eid"
    and js: "json_dumps [(''subject'', PyStr s), (''sender_address'', sender),
                        (''received_utc'', PyStr (recv_str recv)), (''body'', body),
                        (''entry_id'', eid)] = Inr t"
    and ft: "files (snd (OnItemAdd (ex_env 0) ex_item ex_world)) ex_job = Some t"
    and iso: "\<forall>d. recv = PyDateTime d \<longrightarrow> valid_datetime d \<longrightarrow> iso8601_z (recv_str recv)"
    by blast
  from g have recv: "recv = PyDateTime ex_now"
    by (simp add: ex_item_def)
  from iso recv v have i: "iso8601_z ''2025-10-31T08:15:00Z''"
    by (simp add: recv_str_def ex_now_iso)
  from sb g have "[(''subject'', PyStr s), (''sender_address'', sender),
                        (''received_utc'', PyStr (recv_str recv)), (''body'', body),
                        (''entry_id'', eid)] = ex_payload"
    by (auto simp: ex_item_def ex_payload_def recv_str_def ex_now_iso)
  with js have j: "json_dumps ex_payload = Inr t"
    by simp
  then have "t = json_text ex_payload"
    by (simp add: json_text_def)
  with h1 h2 h3 q j ft v i show ?thesis
    by simp
qed

lemma ex_item_norecv_facts:
  "item_Class ex_item_norecv = Holds (PyInt 43)"
  "item_Subject ex_item_norecv = Holds (PyStr ''ESKER VENDOR EMAIL - batch 12'')"
  "build_payload ex_item_norecv (PyStr ''ESKER VENDOR EMAIL - batch 12'') = Inr ex_payload_norecv"
  by (simp_all add: ex_item_norecv_def ex_item_def build_payload_def recv_str_def
      ex_payload_norecv_def)

lemma ex_payload_norecv_ok: "json_dumps ex_payload_norecv = Inr (json_text ex_payload_norecv)"
  by (rule json_dumps_ok) (simp add: ex_payload_norecv_def)

text \<open>
  The claim as stated fails: for a mail item whose \<^verbatim>\<open>ReceivedTime\<close> is \<^verbatim>\<open>None\<close> the
  handler takes the \<^verbatim>\<open>str(recv)\<close> branch and writes a job record whose
  \<open>received_utc\<close> is the text \<open>None\<close>, which is no time stamp.
\<close>

theorem job_record_received_utc_not_iso:
  "item_ReceivedTime ex_item_norecv = Holds PyNone
   \<and> fst (OnItemAdd (ex_env 0) ex_item_norecv ex_world) = Inr ()
   \<and> files ex_world ex_job = None
   \<and> files (snd (OnItemAdd (ex_env 0) ex_item_norecv ex_world)) ex_job
     = Some (json_text ex_payload_norecv)
   \<and> json_text ex_payload_norecv
     = ''{'' @ [CHR 0x0A] @
       ''  '' @ json_string ''subject'' @ '': '' @ json_string ''ESKER VENDOR EMAIL - batch 12'' @
       '','' @ [CHR 0x0A] @
       ''  '' @ json_string ''sender_address'' @ '': '' @ json_string ''vendor@example.com'' @
       '','' @ [CHR 0x0A] @
       ''  '' @ json_string ''received_utc'' @ '': '' @ json_string ''None'' @
       '','' @ [CHR 0x0A] @
       ''  '' @ json_string ''body'' @ '': '' @ json_string ''hello'' @
       '','' @ [CHR 0x0A] @
       ''  '' @ json_string ''entry_id'' @ '': '' @ json_string ''00000000A1'' @
       [CHR 0x0A] @ ''}''
   \<and> \<not> iso8601_z ''None''"
proof -
  have a: "item_ReceivedTime ex_item_norecv = Holds PyNone"
    by (simp add: ex_item_norecv_def)
  have b: "json_text ex_payload_norecv
     = ''{'' @ [CHR 0x0A] @
       ''  '' @ json_string ''subject'' @ '': '' @ json_string ''ESKER VENDOR EMAIL - batch 12'' @
       '','' @ [CHR 0x0A] @
       ''  '' @ json_string ''sender_address'' @ '': '' @ json_string ''vendor@example.com'' @
       '','' @ [CHR 0x0A] @
       ''  '' @ json_string ''received_utc'' @ '': '' @ json_string ''None'' @
       '','' @ [CHR 0x0A] @
       ''  '' @ json_string ''body'' @ '': '' @ json_string ''hello'' @
       '','' @ [CHR 0x0A] @
       ''  '' @ json_string ''entry_id'' @ '': '' @ json_string ''00000000A1'' @
       [CHR 0x0A] @ ''}''"
    by (simp add: json_text_def json_dumps_def ex_payload_norecv_def)
  have c: "\<not> iso8601_z ''None''"
    by (simp add: iso8601_z_def)
  from a b c ex_item_job_file [OF ex_item_norecv_facts ex_payload_norecv_ok] ex_world_facts(5)
  show ?thesis
    by simp
qed

end
